theory Spec2Isabelle
  imports Main "HOL-Library.Word" "HOL-Library.Signed_Division"
begin

section \<open>Machine integers and text\<close>

text \<open>
  The C++ \<^verbatim>\<open>int\<close> and \<^verbatim>\<open>unsigned int\<close> of the codec are 32-bit words. A word carries
  no sign: \<open>sint\<close> reads it as an \<^verbatim>\<open>int\<close>, \<open>uint\<close> and \<open>unat\<close> as an
  \<^verbatim>\<open>unsigned int\<close>, and a conversion between the two C++ types keeps the bits.
\<close>

type_synonym int32 = "32 word"
type_synonym uint32 = "32 word"

text \<open>
  The remainder \<^verbatim>\<open>a % b\<close> on \<^verbatim>\<open>int\<close> truncates towards zero. C++ leaves it
  undefined for \<open>b = 0\<close>; the only use, in \<^verbatim>\<open>OnGetImageAndInvokeCallback\<close>, is reached
  behind the \<^verbatim>\<open>frameCount_ == 0\<close> test of \<^verbatim>\<open>getNextFrame\<close>.
\<close>

definition int_rem :: "int32 \<Rightarrow> int32 \<Rightarrow> int32" where
  "int_rem a b = word_of_int (sint a smod sint b)"

text \<open>What \<^verbatim>\<open>ostream << n\<close> writes for an unsigned and for a signed number.\<close>

fun show_nat :: "nat \<Rightarrow> string" where
  "show_nat n =
     (if n < 10 then [''0123456789'' ! n]
      else show_nat (n div 10) @ [''0123456789'' ! (n mod 10)])"

definition show_int :: "int \<Rightarrow> string" where
  "show_int i = (if i < 0 then CHR ''-'' # show_nat (nat (- i)) else show_nat (nat i))"

section \<open>The Skia types the codec touches\<close>

datatype SkColorType = kN32_SkColorType | kOther_SkColorType

datatype SkAlphaType =
  kUnknown_SkAlphaType | kOpaque_SkAlphaType | kPremul_SkAlphaType | kUnpremul_SkAlphaType

record SkImageInfo =
  info_width :: nat
  info_height :: nat
  info_colorType :: SkColorType
  info_alphaType :: SkAlphaType

definition makeColorType :: "SkColorType \<Rightarrow> SkImageInfo \<Rightarrow> SkImageInfo" where
  "makeColorType c info = info\<lparr>info_colorType := c\<rparr>"

definition makeAlphaType :: "SkAlphaType \<Rightarrow> SkImageInfo \<Rightarrow> SkImageInfo" where
  "makeAlphaType a info = info\<lparr>info_alphaType := a\<rparr>"

record SkIRect =
  fLeft :: int32
  fTop :: int32
  fRight :: int32
  fBottom :: int32

definition rect_contains :: "SkIRect \<Rightarrow> nat \<Rightarrow> nat \<Rightarrow> bool" where
  "rect_contains r x y \<longleftrightarrow>
     sint (fLeft r) \<le> int x \<and> int x < sint (fRight r) \<and>
     sint (fTop r) \<le> int y \<and> int y < sint (fBottom r)"

text \<open>
  A bitmap is its image info and its pixels, one 32-bit value for column \<open>x\<close> and row
  \<open>y\<close>; only the pixels inside the info's width and height belong to the buffer.
  Assigning an \<^verbatim>\<open>SkBitmap\<close> shares the pixel memory, but the codec never writes to a
  bitmap after it has stored or handed on a copy, so a bitmap is modelled as a value.
\<close>

type_synonym SkPixels = "nat \<Rightarrow> nat \<Rightarrow> 32 word"

record SkBitmap =
  bm_info :: SkImageInfo
  bm_pixels :: SkPixels

definition SK_ColorTRANSPARENT :: "32 word" where
  "SK_ColorTRANSPARENT = 0"

definition in_bounds :: "SkImageInfo \<Rightarrow> nat \<Rightarrow> nat \<Rightarrow> bool" where
  "in_bounds info x y \<longleftrightarrow> x < info_width info \<and> y < info_height info"

text \<open>
  \<^verbatim>\<open>SkBitmap().tryAllocPixels(info)\<close>: whether memory is there is up to the
  environment (the flag); a fresh buffer is zero-filled, the blank slate of the codec's log
  message.
\<close>

definition tryAllocPixels :: "bool \<Rightarrow> SkImageInfo \<Rightarrow> SkBitmap option" where
  "tryAllocPixels memory_available info =
     (if memory_available then Some \<lparr>bm_info = info, bm_pixels = (\<lambda>x y. 0)\<rparr> else None)"

text \<open>
  \<^verbatim>\<open>dst.writePixels(src.pixmap())\<close> copies the source into the destination from the
  top left corner, over the area both have. \<^verbatim>\<open>dst.erase(color, rect)\<close> fills the part
  of the rectangle that lies inside the bitmap.
\<close>

definition writePixels :: "SkBitmap \<Rightarrow> SkBitmap \<Rightarrow> SkBitmap" where
  "writePixels src dst =
     dst\<lparr>bm_pixels := (\<lambda>x y.
       if in_bounds (bm_info src) x y \<and> in_bounds (bm_info dst) x y
       then bm_pixels src x y else bm_pixels dst x y)\<rparr>"

definition erase :: "32 word \<Rightarrow> SkIRect \<Rightarrow> SkBitmap \<Rightarrow> SkBitmap" where
  "erase color rect bm =
     bm\<lparr>bm_pixels := (\<lambda>x y.
       if in_bounds (bm_info bm) x y \<and> rect_contains rect x y
       then color else bm_pixels bm x y)\<rparr>"

datatype SkImage = SkImage nat
datatype DlImage = DlImage nat
datatype CanvasImage = CanvasImage DlImage

section \<open>The image generator\<close>

datatype DisposalMethod = kKeep | kRestoreBGColor | kRestorePrevious

record FrameInfo =
  required_frame :: "uint32 option"
  duration :: uint32
  disposal_method :: DisposalMethod
  disposal_rect :: SkIRect

text \<open>
  \<^verbatim>\<open>SkCodec::kNoFrame\<close> is \<open>-1\<close>. The three disposal methods are those of
  \<^verbatim>\<open>SkCodecAnimation::DisposalMethod\<close>.
\<close>

definition kNoFrame :: int32 where
  "kNoFrame = - 1"

text \<open>
  \<^verbatim>\<open>ImageGenerator\<close> is declared in \<^verbatim>\<open>image_generator.h\<close>, not in the codec's own
  files. What the codec reads from it is fixed for a generator: the frame count, the play
  count, the constant \<^verbatim>\<open>kInfinitePlayCount\<close> that stands for endless play (a parameter
  here, whatever its value), the image info and the per-frame info. The counts are
  32-bit values.
\<close>

record ImageGenerator =
  GetFrameCount :: uint32
  GetPlayCount :: uint32
  kInfinitePlayCount :: uint32
  GetInfo :: SkImageInfo
  GetFrameInfo :: "uint32 \<Rightarrow> FrameInfo"

text \<open>
  What one pass through the decode and upload code meets outside the codec: whether the
  allocation finds memory, what the generator's \<^verbatim>\<open>GetPixels\<close> does with the buffer it
  is given for a frame index and a required frame index (\<open>None\<close> when it returns false,
  the filled buffer otherwise; the row stride is the info's), the byte size Skia reports
  for an info, and the collaborators of \<^verbatim>\<open>GetNextFrameImage\<close>.
\<close>

record Env =
  memory_available :: bool
  computeMinByteSize :: "SkImageInfo \<Rightarrow> nat"
  GetPixels :: "SkImageInfo \<Rightarrow> SkPixels \<Rightarrow> uint32 \<Rightarrow> int32 \<Rightarrow> SkPixels option"
  IMPELLER_SUPPORTS_RENDERING :: bool
  UploadTextureToShared :: "SkBitmap \<Rightarrow> DlImage option \<times> string"
  gpu_disabled :: bool
  resourceContext :: bool
  RasterFromBitmap :: "SkBitmap \<Rightarrow> SkImage option"
  CrossContextTextureFromPixmap :: "SkBitmap \<Rightarrow> SkImage option"
  DlImageGPU_Make :: "SkImage option \<Rightarrow> DlImage option"

section \<open>MultiFrameCodec::State\<close>

record State =
  generator :: ImageGenerator
  frameCount :: int32
  repetitionCount :: int32
  is_impeller_enabled :: bool
  nextFrameIndex :: int32
  lastRequiredFrame :: "SkBitmap option"
  restoreBGColorRect :: "SkIRect option"

text \<open>
  The constructor. The play count and the member \<^verbatim>\<open>repetitionCount_\<close> are 32-bit
  integers, so the subtraction is the one of 32-bit words, and the frame count is stored
  with the bits the generator returns. The flag is what
  \<^verbatim>\<open>UIDartState::Current()->IsImpellerEnabled()\<close> answers.
\<close>

definition State_init :: "ImageGenerator \<Rightarrow> bool \<Rightarrow> State" where
  "State_init g impeller =
     \<lparr>generator = g,
      frameCount = GetFrameCount g,
      repetitionCount =
        (if GetPlayCount g = kInfinitePlayCount g then - 1 else GetPlayCount g - 1),
      is_impeller_enabled = impeller,
      nextFrameIndex = 0,
      lastRequiredFrame = None,
      restoreBGColorRect = None\<rparr>"

subsection \<open>DecodeImage\<close>

text \<open>The info of the output buffer: 32 bits per pixel, premultiplied when the source is not.\<close>

definition DecodeImage_info :: "State \<Rightarrow> SkImageInfo" where
  "DecodeImage_info s =
     (let info = makeColorType kN32_SkColorType (GetInfo (generator s))
      in if info_alphaType info = kUnpremul_SkAlphaType
         then makeAlphaType kPremul_SkAlphaType info else info)"

definition DecodeImage_requiredFrameIndex :: "FrameInfo \<Rightarrow> int32" where
  "DecodeImage_requiredFrameIndex frameInfo =
     (case required_frame frameInfo of None \<Rightarrow> kNoFrame | Some r \<Rightarrow> r)"

text \<open>
  The block between the allocation and the call of \<^verbatim>\<open>GetPixels\<close>: what the fresh
  bitmap holds when the generator is asked to decode into it.
\<close>

definition DecodeImage_backdrop :: "State \<Rightarrow> int32 \<Rightarrow> SkBitmap \<Rightarrow> SkBitmap" where
  "DecodeImage_backdrop s requiredFrameIndex bitmap =
     (if requiredFrameIndex \<noteq> kNoFrame then
        (case lastRequiredFrame s of
           None \<Rightarrow> bitmap
         | Some retained \<Rightarrow>
             (let copied = writePixels retained bitmap
              in case restoreBGColorRect s of
                   None \<Rightarrow> copied
                 | Some rect \<Rightarrow> erase SK_ColorTRANSPARENT rect copied))
      else bitmap)"

text \<open>
  What follows a successful \<^verbatim>\<open>GetPixels\<close>: the stored frame and the rectangle to
  clear before the next frame.
\<close>

definition DecodeImage_retain :: "FrameInfo \<Rightarrow> SkBitmap \<Rightarrow> State \<Rightarrow> State" where
  "DecodeImage_retain frameInfo bitmap s =
     (let keep_current_frame = (disposal_method frameInfo = kKeep);
          restore_previous_frame = (disposal_method frameInfo = kRestorePrevious);
          previous_frame_available = (lastRequiredFrame s \<noteq> None);
          s1 = (if keep_current_frame \<or> (previous_frame_available \<and> \<not> restore_previous_frame)
                then s\<lparr>lastRequiredFrame := Some bitmap\<rparr> else s)
      in if disposal_method frameInfo = kRestoreBGColor
         then s1\<lparr>restoreBGColorRect := Some (disposal_rect frameInfo)\<rparr>
         else s1\<lparr>restoreBGColorRect := None\<rparr>)"

text \<open>
  \<^verbatim>\<open>DecodeImage\<close> returns the state it leaves and the two arguments it hands to its
  callback: the decoded bitmap, if any, and the error text.
\<close>

definition DecodeImage :: "Env \<Rightarrow> State \<Rightarrow> State \<times> SkBitmap option \<times> string" where
  "DecodeImage env s =
     (let info = DecodeImage_info s
      in case tryAllocPixels (memory_available env) info of
           None \<Rightarrow>
             (s, None,
              ''Failed to allocate memory for bitmap of size '' @
                show_nat (computeMinByteSize env info) @ ''B'')
         | Some bitmap \<Rightarrow>
             (let frameInfo = GetFrameInfo (generator s) (nextFrameIndex s);
                  requiredFrameIndex = DecodeImage_requiredFrameIndex frameInfo;
                  backdrop = DecodeImage_backdrop s requiredFrameIndex bitmap
              in case GetPixels env info (bm_pixels backdrop) (nextFrameIndex s)
                        requiredFrameIndex of
                   None \<Rightarrow>
                     (s, None,
                      ''Could not getPixels for frame '' @ show_int (sint (nextFrameIndex s)))
                 | Some decoded \<Rightarrow>
                     (let bitmap' = backdrop\<lparr>bm_pixels := decoded\<rparr>
                      in (DecodeImage_retain frameInfo bitmap' s, Some bitmap', ''''))))"

subsection \<open>GetNextFrameImage\<close>

definition GetNextFrameImage :: "Env \<Rightarrow> State \<Rightarrow> SkBitmap \<Rightarrow> DlImage option \<times> string" where
  "GetNextFrameImage env s bitmap =
     (if IMPELLER_SUPPORTS_RENDERING env \<and> is_impeller_enabled s
      then UploadTextureToShared env bitmap
      else
        (let skImage =
               (if gpu_disabled env then RasterFromBitmap env bitmap
                else if resourceContext env then CrossContextTextureFromPixmap env bitmap
                else RasterFromBitmap env bitmap)
         in (DlImageGPU_Make env skImage, [])))"

subsection \<open>Delivery to the Dart callback\<close>

datatype Dart_Handle = Dart_Null | Dart_String string | Dart_Closure nat | Dart_Instance nat

fun Dart_IsClosure :: "Dart_Handle \<Rightarrow> bool" where
  "Dart_IsClosure (Dart_Closure _) = True"
| "Dart_IsClosure _ = False"

text \<open>What reaches the Dart side: a call of the callback, or the release of its handle.\<close>

datatype dart_effect =
  DartInvoke Dart_Handle "CanvasImage option" int32 string
| Cleared Dart_Handle

text \<open>
  \<^verbatim>\<open>InvokeNextFrameCallback\<close> calls the callback unless the Dart state it belongs to is
  gone; the flag says whether the state could be acquired.
\<close>

definition InvokeNextFrameCallback ::
  "bool \<Rightarrow> CanvasImage option \<Rightarrow> int32 \<Rightarrow> string \<Rightarrow> Dart_Handle \<Rightarrow> dart_effect list" where
  "InvokeNextFrameCallback dart_state canvas_image dur decode_error callback =
     (if \<not> dart_state then [] else [DartInvoke callback canvas_image dur decode_error])"

text \<open>The closures posted to the UI task runner.\<close>

datatype ui_task =
  InvokeNextFrameCallback_task "CanvasImage option" int32 string Dart_Handle
| Clear_task Dart_Handle

fun run_ui_task :: "bool \<Rightarrow> ui_task \<Rightarrow> dart_effect list" where
  "run_ui_task dart_state (InvokeNextFrameCallback_task canvas_image dur decode_error callback) =
     InvokeNextFrameCallback dart_state canvas_image dur decode_error callback"
| "run_ui_task dart_state (Clear_task callback) = [Cleared callback]"

subsection \<open>OnGetImageAndInvokeCallback and the callback of DecodeImage\<close>

definition OnGetImageAndInvokeCallback ::
  "State \<Rightarrow> DlImage option \<Rightarrow> string \<Rightarrow> Dart_Handle \<Rightarrow> State \<times> ui_task" where
  "OnGetImageAndInvokeCallback s dl_image decode_error callback =
     (let canvas_image = map_option CanvasImage dl_image;
          dur = (if dl_image \<noteq> None
                 then duration (GetFrameInfo (generator s) (nextFrameIndex s)) else 0)
      in (s\<lparr>nextFrameIndex := int_rem (nextFrameIndex s + 1) (frameCount s)\<rparr>,
          InvokeNextFrameCallback_task canvas_image dur decode_error callback))"

text \<open>
  The closure that \<^verbatim>\<open>GetNextFrameAndInvokeCallback\<close> passes to \<^verbatim>\<open>DecodeImage\<close>.
\<close>

definition DecodeImage_callback ::
  "Env \<Rightarrow> State \<Rightarrow> SkBitmap option \<Rightarrow> string \<Rightarrow> Dart_Handle \<Rightarrow> State \<times> ui_task" where
  "DecodeImage_callback env s sk_bitmap_optional decode_error callback =
     (let (dl_image, decode_error') =
            (case sk_bitmap_optional of
               Some bitmap \<Rightarrow> GetNextFrameImage env s bitmap
             | None \<Rightarrow> (None, decode_error))
      in OnGetImageAndInvokeCallback s dl_image decode_error' callback)"

section \<open>The codec with its two task runners\<close>

text \<open>
  The closures posted to the IO task runner: the one \<^verbatim>\<open>getNextFrame\<close> posts, which
  holds the callback and a weak pointer to the state, and the one \<^verbatim>\<open>DecodeImage\<close>
  posts, which holds the result of the decode and the callback of
  \<^verbatim>\<open>GetNextFrameAndInvokeCallback\<close>, and with it an owning pointer to the state
  (\<^verbatim>\<open>self = shared_from_this()\<close>).
\<close>

datatype io_task =
  GetNextFrame_task Dart_Handle
| DecodeImage_callback_task "SkBitmap option" string Dart_Handle

fun holds_state :: "io_task \<Rightarrow> bool" where
  "holds_state (DecodeImage_callback_task _ _ _) = True"
| "holds_state (GetNextFrame_task _) = False"

text \<open>
  The \<^verbatim>\<open>MultiFrameCodec\<close> object (\<open>codec_alive\<close> until it is destroyed), the state it
  shares with the decode work, the number of owning pointers to that state (the state is
  destroyed when the count reaches 0, its fields then mean nothing), and the queues of the
  two task runners. Two fields are there to observe a run: \<open>decode_log\<close> notes, for each
  call of \<^verbatim>\<open>DecodeImage\<close>, the frame index it worked on and whether it produced a
  bitmap; \<open>dart_log\<close> notes what reached the Dart side.
\<close>

record System =
  codec_alive :: bool
  shared_state :: State
  use_count :: nat
  io_task_runner :: "io_task list"
  ui_task_runner :: "ui_task list"
  decode_log :: "(int32 \<times> bool) list"
  dart_log :: "dart_effect list"

definition MultiFrameCodec_init :: "ImageGenerator \<Rightarrow> bool \<Rightarrow> System" where
  "MultiFrameCodec_init g impeller =
     \<lparr>codec_alive = True,
      shared_state = State_init g impeller,
      use_count = 1,
      io_task_runner = [],
      ui_task_runner = [],
      decode_log = [],
      dart_log = []\<rparr>"

definition MultiFrameCodec_frameCount :: "System \<Rightarrow> int32" where
  "MultiFrameCodec_frameCount sys = frameCount (shared_state sys)"

definition MultiFrameCodec_repetitionCount :: "System \<Rightarrow> int32" where
  "MultiFrameCodec_repetitionCount sys = repetitionCount (shared_state sys)"

definition getNextFrame :: "Dart_Handle \<Rightarrow> System \<Rightarrow> Dart_Handle \<times> System" where
  "getNextFrame callback_handle sys =
     (if \<not> Dart_IsClosure callback_handle
      then (Dart_String ''Callback must be a function'', sys)
      else if frameCount (shared_state sys) = 0
      then (Dart_Null,
            sys\<lparr>ui_task_runner := ui_task_runner sys @
               [InvokeNextFrameCallback_task None 0 ''Could not provide any frame.''
                  callback_handle]\<rparr>)
      else (Dart_Null,
            sys\<lparr>io_task_runner := io_task_runner sys @ [GetNextFrame_task callback_handle]\<rparr>))"

text \<open>
  One task of the IO runner, already taken off the queue. The first kind locks its weak
  pointer, which fails exactly when no owner is left; otherwise it runs
  \<^verbatim>\<open>GetNextFrameAndInvokeCallback\<close>, whose \<^verbatim>\<open>DecodeImage\<close> posts its callback back to
  the IO runner. The second kind runs that callback and then gives up its owning pointer.
\<close>

fun run_io_task :: "Env \<Rightarrow> io_task \<Rightarrow> System \<Rightarrow> System" where
  "run_io_task env (GetNextFrame_task callback) sys =
     (if use_count sys = 0
      then sys\<lparr>ui_task_runner := ui_task_runner sys @ [Clear_task callback]\<rparr>
      else
        (let (s', sk_bitmap_optional, decode_error) = DecodeImage env (shared_state sys)
         in sys\<lparr>shared_state := s',
                use_count := use_count sys + 1,
                io_task_runner := io_task_runner sys @
                  [DecodeImage_callback_task sk_bitmap_optional decode_error callback],
                decode_log := decode_log sys @
                  [(nextFrameIndex (shared_state sys), sk_bitmap_optional \<noteq> None)]\<rparr>))"
| "run_io_task env (DecodeImage_callback_task sk_bitmap_optional decode_error callback) sys =
     (let (s', task) =
            DecodeImage_callback env (shared_state sys) sk_bitmap_optional decode_error callback
      in sys\<lparr>shared_state := s',
             use_count := use_count sys - 1,
             ui_task_runner := ui_task_runner sys @ [task]\<rparr>)"

text \<open>
  What can happen to the system: the Dart side calls \<^verbatim>\<open>getNextFrame\<close> (possible only
  while the codec object exists), the codec object is destroyed and gives up its owning
  pointer, the IO runner runs the task at the head of its queue, the UI runner does.
\<close>

datatype event =
  Call_getNextFrame Dart_Handle
| Destroy_codec
| Run_io Env
| Run_ui bool

fun run_event :: "event \<Rightarrow> System \<Rightarrow> System" where
  "run_event (Call_getNextFrame callback_handle) sys =
     (if codec_alive sys then snd (getNextFrame callback_handle sys) else sys)"
| "run_event Destroy_codec sys =
     (if codec_alive sys then sys\<lparr>codec_alive := False, use_count := use_count sys - 1\<rparr>
      else sys)"
| "run_event (Run_io env) sys =
     (case io_task_runner sys of
        [] \<Rightarrow> sys
      | task # rest \<Rightarrow> run_io_task env task (sys\<lparr>io_task_runner := rest\<rparr>))"
| "run_event (Run_ui dart_state) sys =
     (case ui_task_runner sys of
        [] \<Rightarrow> sys
      | task # rest \<Rightarrow>
          sys\<lparr>ui_task_runner := rest,
              dart_log := dart_log sys @ run_ui_task dart_state task\<rparr>)"

fun run_events :: "event list \<Rightarrow> System \<Rightarrow> System" where
  "run_events [] sys = sys"
| "run_events (e # es) sys = run_events es (run_event e sys)"

section \<open>Observations on a run\<close>

text \<open>The frame indices of the decodes that produced a bitmap, oldest first.\<close>

definition decoded_frames :: "System \<Rightarrow> int32 list" where
  "decoded_frames sys = map fst (filter snd (decode_log sys))"

text \<open>
  Whether a frame whose disposal method is Keep has been decoded successfully, and whether
  the latest successful decode was of a frame whose disposal method is RestoreBGColor.
\<close>

definition keep_decoded :: "ImageGenerator \<Rightarrow> System \<Rightarrow> bool" where
  "keep_decoded g sys =
     list_ex (\<lambda>i. disposal_method (GetFrameInfo g i) = kKeep) (decoded_frames sys)"

definition restore_background_decoded_last :: "ImageGenerator \<Rightarrow> System \<Rightarrow> bool" where
  "restore_background_decoded_last g sys \<longleftrightarrow>
     decoded_frames sys \<noteq> [] \<and>
     disposal_method (GetFrameInfo g (last (decoded_frames sys))) = kRestoreBGColor"

text \<open>
  One request served from start to end before anything else happens: the call, the IO
  task that decodes, the IO task that runs the callback of the decode, and the UI task
  that delivers the result. \<open>sequential_run\<close> is the system after a list of requests
  served this way from its construction.
\<close>

fun sequential_request :: "Dart_Handle \<times> Env \<times> Env \<times> bool \<Rightarrow> event list" where
  "sequential_request (callback_handle, env, env', dart_state) =
     [Call_getNextFrame callback_handle, Run_io env, Run_io env', Run_ui dart_state]"

definition sequential_run ::
  "ImageGenerator \<Rightarrow> bool \<Rightarrow> (Dart_Handle \<times> Env \<times> Env \<times> bool) list \<Rightarrow> System" where
  "sequential_run g impeller reqs =
     run_events (concat (map sequential_request reqs)) (MultiFrameCodec_init g impeller)"

text \<open>
  The bitmap \<^verbatim>\<open>DecodeImage\<close> allocates, before anything is written to it, and the call
  of \<^verbatim>\<open>GetPixels\<close> that \<^verbatim>\<open>DecodeImage\<close> makes once the bitmap is allocated and
  prepared.
\<close>

definition fresh_bitmap :: "State \<Rightarrow> SkBitmap" where
  "fresh_bitmap s = \<lparr>bm_info = DecodeImage_info s, bm_pixels = (\<lambda>x y. 0)\<rparr>"

definition raw_decode :: "Env \<Rightarrow> State \<Rightarrow> SkPixels option" where
  "raw_decode env s =
     (let frameInfo = GetFrameInfo (generator s) (nextFrameIndex s);
          requiredFrameIndex = DecodeImage_requiredFrameIndex frameInfo;
          backdrop = DecodeImage_backdrop s requiredFrameIndex (fresh_bitmap s)
      in GetPixels env (DecodeImage_info s) (bm_pixels backdrop) (nextFrameIndex s)
           requiredFrameIndex)"

text \<open>
  What one request served on its own does to the state: the decode, then the step of the
  frame index in the callback.
\<close>

definition serve :: "Env \<Rightarrow> State \<Rightarrow> State" where
  "serve env s =
     (fst (DecodeImage env s))\<lparr>nextFrameIndex :=
        int_rem (nextFrameIndex s + 1) (frameCount s)\<rparr>"

section \<open>Invariants\<close>

text \<open>The members of the state that the constructor sets and nothing assigns afterwards.\<close>

definition static_fields :: "State \<Rightarrow> ImageGenerator \<times> int32 \<times> int32 \<times> bool" where
  "static_fields s = (generator s, frameCount s, repetitionCount s, is_impeller_enabled s)"

text \<open>A retained frame has the info every output buffer is allocated with.\<close>

definition retained_info_ok :: "State \<Rightarrow> bool" where
  "retained_info_ok s =
     (case lastRequiredFrame s of
        None \<Rightarrow> True
      | Some retained \<Rightarrow> bm_info retained = DecodeImage_info s)"

text \<open>
  The owners of the state: the codec object while it exists, and every queued callback of
  a decode.
\<close>

definition owners :: "System \<Rightarrow> nat" where
  "owners sys =
     (if codec_alive sys then 1 else 0) + length (filter holds_state (io_task_runner sys))"

text \<open>Nothing is in flight: the codec object exists and both queues are empty.\<close>

definition quiescent :: "System \<Rightarrow> bool" where
  "quiescent sys \<longleftrightarrow>
     codec_alive sys \<and> io_task_runner sys = [] \<and> ui_task_runner sys = [] \<and> use_count sys = 1"

text \<open>
  What holds of every run with a frame count of 0: the state is the constructed one, the
  IO runner has no task, no decode is logged, and all that is queued for or has reached
  the Dart side is the report that there are no frames.
\<close>

fun no_frames_task :: "ui_task \<Rightarrow> bool" where
  "no_frames_task (InvokeNextFrameCallback_task canvas_image dur decode_error callback) =
     (canvas_image = None \<and> dur = 0 \<and> decode_error = ''Could not provide any frame.'')"
| "no_frames_task (Clear_task callback) = False"

fun no_frames_effect :: "dart_effect \<Rightarrow> bool" where
  "no_frames_effect (DartInvoke callback canvas_image dur decode_error) =
     (canvas_image = None \<and> dur = 0 \<and> decode_error = ''Could not provide any frame.'')"
| "no_frames_effect (Cleared callback) = False"

definition no_frames_inv :: "State \<Rightarrow> System \<Rightarrow> bool" where
  "no_frames_inv s0 sys \<longleftrightarrow>
     shared_state sys = s0 \<and> io_task_runner sys = [] \<and> decode_log sys = [] \<and>
     list_all no_frames_task (ui_task_runner sys) \<and> list_all no_frames_effect (dart_log sys)"

text \<open>
  How the retained frame and the pending rectangle follow from the decodes so far: a frame
  is retained once a Keep frame has been decoded, and the rectangle is pending exactly when
  the latest decode was of a RestoreBGColor frame.
\<close>

definition retained_inv :: "ImageGenerator \<Rightarrow> System \<Rightarrow> bool" where
  "retained_inv g sys \<longleftrightarrow>
     generator (shared_state sys) = g \<and>
     (keep_decoded g sys \<longrightarrow> lastRequiredFrame (shared_state sys) \<noteq> None) \<and>
     (restoreBGColorRect (shared_state sys) \<noteq> None) = restore_background_decoded_last g sys"

section \<open>Example inputs\<close>

definition example_info :: SkImageInfo where
  "example_info =
     \<lparr>info_width = 2, info_height = 2,
      info_colorType = kN32_SkColorType, info_alphaType = kPremul_SkAlphaType\<rparr>"

definition example_rect :: SkIRect where
  "example_rect = \<lparr>fLeft = 0, fTop = 0, fRight = 1, fBottom = 2\<rparr>"

definition example_frame :: "uint32 option \<Rightarrow> DisposalMethod \<Rightarrow> FrameInfo" where
  "example_frame required disposal =
     \<lparr>required_frame = required, duration = 100,
      disposal_method = disposal, disposal_rect = example_rect\<rparr>"

text \<open>A generator with the given frames, played three times.\<close>

definition example_generator :: "FrameInfo list \<Rightarrow> ImageGenerator" where
  "example_generator frames =
     \<lparr>GetFrameCount = of_nat (length frames),
      GetPlayCount = 3,
      kInfinitePlayCount = - 1,
      GetInfo = example_info,
      GetFrameInfo = (\<lambda>i. if unat i < length frames then frames ! unat i
                           else example_frame None kKeep)\<rparr>"

text \<open>
  An environment in which everything works: frame \<open>i\<close> paints the value \<open>i + 1\<close>
  on the diagonal of the buffer it is given and leaves the rest.
\<close>

definition example_env :: Env where
  "example_env =
     \<lparr>memory_available = True,
      computeMinByteSize = (\<lambda>info. info_width info * info_height info * 4),
      GetPixels = (\<lambda>info pixels i required.
         Some (\<lambda>x y. if x = y then i + 1 else pixels x y)),
      IMPELLER_SUPPORTS_RENDERING = False,
      UploadTextureToShared = (\<lambda>bitmap. (None, ''no impeller'')),
      gpu_disabled = True,
      resourceContext = False,
      RasterFromBitmap = (\<lambda>bitmap. Some (SkImage 0)),
      CrossContextTextureFromPixmap = (\<lambda>bitmap. Some (SkImage 1)),
      DlImageGPU_Make = map_option (\<lambda>i. case i of SkImage n \<Rightarrow> DlImage n)\<rparr>"

text \<open>The same environment without memory, and with a generator that cannot decode.\<close>

definition example_env_no_memory :: Env where
  "example_env_no_memory = example_env\<lparr>memory_available := False\<rparr>"

definition example_env_no_pixels :: Env where
  "example_env_no_pixels = example_env\<lparr>GetPixels := (\<lambda>info pixels i required. None)\<rparr>"

text \<open>
  An animation of three frames: frame 0 is kept, frame 1 builds on frame 0 and asks for
  the background to be restored in \<open>example_rect\<close>, frame 2 builds on frame 1 and asks
  for the previous canvas to be restored.
\<close>

definition example_animation :: ImageGenerator where
  "example_animation =
     example_generator
       [example_frame None kKeep,
        example_frame (Some 0) kRestoreBGColor,
        example_frame (Some 1) kRestorePrevious]"

text \<open>
  Animations of one frame that asks to restore the previous canvas, of one frame that asks
  to restore the background, and of no frame at all.
\<close>

definition restore_previous_first :: ImageGenerator where
  "restore_previous_first = example_generator [example_frame None kRestorePrevious]"

definition restore_background_first :: ImageGenerator where
  "restore_background_first = example_generator [example_frame None kRestoreBGColor]"


definition no_frames :: ImageGenerator where
  "no_frames = example_generator []"

text \<open>Two requests that meet no failure.\<close>

definition two_requests :: "(Dart_Handle \<times> Env \<times> Env \<times> bool) list" where
  "two_requests =
     [(Dart_Closure 0, example_env, example_env, True),
      (Dart_Closure 1, example_env, example_env, True)]"

section \<open>Lemmas: machine arithmetic\<close>

lemma sint_of_nat_small:
  "m < 2 ^ 31 \<Longrightarrow> sint (of_nat m :: 32 word) = int m"
  by (simp add: signed_of_nat signed_take_bit_int_eq_self)

lemma sint_pos_unat:
  fixes w :: "32 word"
  assumes "0 < sint w"
  shows "sint w = int (unat w)" and "unat w < 2 ^ 31" and "0 < unat w"
proof -
  have lt: "sint w < 2 ^ 31" using sint_lt [of w] by simp
  have "uint w = take_bit 32 (sint w)" using uint_sint [of w] by simp
  also have "\<dots> = sint w" using assms lt by (simp add: take_bit_int_eq_self)
  finally have u: "uint w = sint w" .
  then show "sint w = int (unat w)" by simp
  have "nat (uint w) < 2 ^ 31" using lt u by (simp add: nat_less_iff)
  then show "unat w < 2 ^ 31" by (simp only: unat_eq_nat_uint)
  have "0 < nat (uint w)" using assms u by simp
  then show "0 < unat w" by (simp only: unat_eq_nat_uint)
qed

lemma sint_minus_one:
  fixes w :: "32 word"
  assumes "0 \<le> sint w"
  shows "sint (w - 1) = sint w - 1"
proof -
  have "sint w < 2 ^ 31" using sint_lt [of w] by simp
  with assms have "signed_take_bit 31 (sint w - 1) = sint w - 1"
    by (intro signed_take_bit_int_eq_self) simp_all
  then show ?thesis
    by (simp add: sint_word_ariths)
qed

lemma int_rem_Suc:
  fixes fc :: "32 word"
  assumes "0 < sint fc" and "m < unat fc"
  shows "int_rem (of_nat m + 1) fc = of_nat (Suc m mod unat fc)"
proof -
  note fc = sint_pos_unat [OF assms(1)]
  have "Suc m < 2 ^ 31" using assms(2) fc(2) by simp
  then have "sint (of_nat m + 1 :: 32 word) = int (Suc m)"
    using sint_of_nat_small [of "Suc m"] by (simp add: add.commute)
  then have "sint (of_nat m + 1 :: 32 word) smod sint fc = int (Suc m) mod int (unat fc)"
    by (simp add: fc(1) smod_mod_positive)
  also have "\<dots> = int (Suc m mod unat fc)"
    by (simp add: zmod_int)
  finally show ?thesis
    by (simp add: int_rem_def)
qed

lemma int_rem_step:
  fixes fc idx :: "32 word"
  assumes "0 < sint fc" and "unat idx < unat fc"
  shows "unat (int_rem (idx + 1) fc) = Suc (unat idx) mod unat fc"
    and "unat (int_rem (idx + 1) fc) < unat fc"
    and "sint (int_rem (idx + 1) fc) = (sint idx + 1) mod sint fc"
    and "sint idx = int (unat idx)"
proof -
  note fc = sint_pos_unat [OF assms(1)]
  have r: "int_rem (idx + 1) fc = of_nat (Suc (unat idx) mod unat fc)"
    using int_rem_Suc [OF assms, of ] by simp
  have lt: "Suc (unat idx) mod unat fc < unat fc"
    using fc(3) by simp
  then have small: "Suc (unat idx) mod unat fc < 2 ^ 32"
    using fc(2) by simp
  show u: "unat (int_rem (idx + 1) fc) = Suc (unat idx) mod unat fc"
    unfolding r using small by (simp add: unat_of_nat)
  with lt show "unat (int_rem (idx + 1) fc) < unat fc" by simp
  have "unat idx < 2 ^ 31" using assms(2) fc(2) by simp
  then show i: "sint idx = int (unat idx)"
    using sint_of_nat_small [of "unat idx"] by simp
  have "Suc (unat idx) mod unat fc < 2 ^ 31" using lt fc(2) by simp
  then have "sint (int_rem (idx + 1) fc) = int (Suc (unat idx) mod unat fc)"
    unfolding r by (rule sint_of_nat_small)
  also have "\<dots> = (sint idx + 1) mod sint fc"
    unfolding i fc(1) by (simp add: zmod_int add.commute)
  finally show "sint (int_rem (idx + 1) fc) = (sint idx + 1) mod sint fc" .
qed

lemma int_rem_examples:
  "int_rem 1 3 = 1" "int_rem 2 3 = 2" "int_rem 3 3 = 0" "int_rem 1 1 = 0"
  by (simp_all add: int_rem_def signed_modulo_int_def)

section \<open>Lemmas: the decode step\<close>

lemma State_init_simps:
  "generator (State_init g impeller) = g"
  "frameCount (State_init g impeller) = GetFrameCount g"
  "repetitionCount (State_init g impeller) =
     (if GetPlayCount g = kInfinitePlayCount g then - 1 else GetPlayCount g - 1)"
  "is_impeller_enabled (State_init g impeller) = impeller"
  "nextFrameIndex (State_init g impeller) = 0"
  "lastRequiredFrame (State_init g impeller) = None"
  "restoreBGColorRect (State_init g impeller) = None"
  by (simp_all add: State_init_def)

lemma DecodeImage_no_memory:
  "\<not> memory_available env \<Longrightarrow>
   DecodeImage env s =
     (s, None, ''Failed to allocate memory for bitmap of size '' @
        show_nat (computeMinByteSize env (DecodeImage_info s)) @ ''B'')"
  by (simp add: DecodeImage_def tryAllocPixels_def Let_def)

lemma DecodeImage_with_memory:
  "memory_available env \<Longrightarrow>
   DecodeImage env s =
     (let frameInfo = GetFrameInfo (generator s) (nextFrameIndex s);
          requiredFrameIndex = DecodeImage_requiredFrameIndex frameInfo;
          backdrop = DecodeImage_backdrop s requiredFrameIndex (fresh_bitmap s)
      in case GetPixels env (DecodeImage_info s) (bm_pixels backdrop) (nextFrameIndex s)
                requiredFrameIndex of
           None \<Rightarrow>
             (s, None, ''Could not getPixels for frame '' @ show_int (sint (nextFrameIndex s)))
         | Some decoded \<Rightarrow>
             (DecodeImage_retain frameInfo (backdrop\<lparr>bm_pixels := decoded\<rparr>) s,
              Some (backdrop\<lparr>bm_pixels := decoded\<rparr>), ''''))"
  by (simp add: DecodeImage_def tryAllocPixels_def Let_def fresh_bitmap_def split: option.splits)

lemma DecodeImage_raw_decode_None:
  "memory_available env \<Longrightarrow> raw_decode env s = None \<Longrightarrow>
   DecodeImage env s =
     (s, None, ''Could not getPixels for frame '' @ show_int (sint (nextFrameIndex s)))"
  by (simp add: DecodeImage_with_memory raw_decode_def Let_def)

lemma DecodeImage_failure:
  assumes "\<not> memory_available env \<or> raw_decode env s = None"
  obtains err where "err \<noteq> []" and "DecodeImage env s = (s, None, err)"
proof (cases "memory_available env")
  case False
  show ?thesis
  proof (rule that)
    show "DecodeImage env s =
            (s, None, ''Failed to allocate memory for bitmap of size '' @
               show_nat (computeMinByteSize env (DecodeImage_info s)) @ ''B'')"
      using False by (rule DecodeImage_no_memory)
  qed simp
next
  case True
  with assms have n: "raw_decode env s = None" by simp
  show ?thesis
  proof (rule that)
    show "DecodeImage env s =
            (s, None, ''Could not getPixels for frame '' @ show_int (sint (nextFrameIndex s)))"
      using True n by (rule DecodeImage_raw_decode_None)
  qed simp
qed

lemma DecodeImage_Some:
  assumes "DecodeImage env s = (s', Some bitmap, err)"
  shows "s' = DecodeImage_retain (GetFrameInfo (generator s) (nextFrameIndex s)) bitmap s \<and> err = []"
proof (cases "memory_available env")
  case False
  with assms show ?thesis by (simp add: DecodeImage_no_memory)
next
  case True
  with assms show ?thesis
    by (auto simp: DecodeImage_with_memory Let_def split: option.splits)
qed

lemma DecodeImage_None:
  assumes "DecodeImage env s = (s', None, err)"
  shows "s' = s \<and> err \<noteq> []"
proof (cases "memory_available env")
  case False
  with assms show ?thesis by (auto simp: DecodeImage_no_memory)
next
  case True
  with assms show ?thesis
    by (auto simp: DecodeImage_with_memory Let_def split: option.splits)
qed

lemma lastRequiredFrame_retain:
  "lastRequiredFrame (DecodeImage_retain fi b s) =
     (if disposal_method fi = kKeep \<or>
         (lastRequiredFrame s \<noteq> None \<and> disposal_method fi \<noteq> kRestorePrevious)
      then Some b else lastRequiredFrame s)"
  by (simp add: DecodeImage_retain_def Let_def)

lemma restoreBGColorRect_retain:
  "restoreBGColorRect (DecodeImage_retain fi b s) =
     (if disposal_method fi = kRestoreBGColor then Some (disposal_rect fi) else None)"
  by (simp add: DecodeImage_retain_def Let_def)

lemma retain_static:
  "generator (DecodeImage_retain fi b s) = generator s"
  "frameCount (DecodeImage_retain fi b s) = frameCount s"
  "repetitionCount (DecodeImage_retain fi b s) = repetitionCount s"
  "is_impeller_enabled (DecodeImage_retain fi b s) = is_impeller_enabled s"
  "nextFrameIndex (DecodeImage_retain fi b s) = nextFrameIndex s"
  by (simp_all add: DecodeImage_retain_def Let_def)

lemma bm_info_backdrop: "bm_info (DecodeImage_backdrop s r b) = bm_info b"
  by (simp add: DecodeImage_backdrop_def writePixels_def erase_def Let_def split: option.splits)

lemma DecodeImage_cases:
  obtains (failed) err where "DecodeImage env s = (s, None, err)" and "err \<noteq> []"
  | (decoded) bitmap where
      "DecodeImage env s =
         (DecodeImage_retain (GetFrameInfo (generator s) (nextFrameIndex s)) bitmap s,
          Some bitmap, [])"
      and "bm_info bitmap = DecodeImage_info s"
proof (cases "DecodeImage env s")
  case (fields s' r err)
  show ?thesis
  proof (cases r)
    case None
    with fields DecodeImage_None [of env s s' err] failed show ?thesis by simp
  next
    case (Some bitmap)
    have "bm_info bitmap = DecodeImage_info s"
    proof (cases "memory_available env")
      case False
      with fields Some show ?thesis by (simp add: DecodeImage_no_memory)
    next
      case True
      with fields Some show ?thesis
        by (auto simp: DecodeImage_with_memory Let_def bm_info_backdrop fresh_bitmap_def
            split: option.splits)
    qed
    with fields Some DecodeImage_Some [of env s s' bitmap err] decoded show ?thesis by simp
  qed
qed

lemma DecodeImage_static:
  "generator (fst (DecodeImage env s)) = generator s"
  "frameCount (fst (DecodeImage env s)) = frameCount s"
  "repetitionCount (fst (DecodeImage env s)) = repetitionCount s"
  "is_impeller_enabled (fst (DecodeImage env s)) = is_impeller_enabled s"
  "nextFrameIndex (fst (DecodeImage env s)) = nextFrameIndex s"
  by (cases env s rule: DecodeImage_cases; simp add: retain_static)+

lemma DecodeImage_info_generator:
  "generator s = generator s' \<Longrightarrow> DecodeImage_info s = DecodeImage_info s'"
  by (simp add: DecodeImage_info_def)

lemma retained_info_ok_DecodeImage:
  assumes "retained_info_ok s"
  shows "retained_info_ok (fst (DecodeImage env s))"
proof (cases env s rule: DecodeImage_cases)
  case (failed err)
  with assms show ?thesis by simp
next
  case (decoded bitmap)
  have "DecodeImage_info (DecodeImage_retain (GetFrameInfo (generator s) (nextFrameIndex s)) bitmap s)
          = DecodeImage_info s"
    by (rule DecodeImage_info_generator) (simp add: retain_static)
  with assms decoded show ?thesis
    by (simp add: retained_info_ok_def lastRequiredFrame_retain split: option.splits)
qed

lemma backdrop_pixels:
  assumes "r \<noteq> kNoFrame" and "lastRequiredFrame s = Some retained"
    and "bm_info retained = DecodeImage_info s" and "in_bounds (DecodeImage_info s) x y"
  shows "bm_pixels (DecodeImage_backdrop s r (fresh_bitmap s)) x y =
           (case restoreBGColorRect s of
              None \<Rightarrow> bm_pixels retained x y
            | Some rect \<Rightarrow>
                if rect_contains rect x y then SK_ColorTRANSPARENT else bm_pixels retained x y)"
  using assms
  by (simp add: DecodeImage_backdrop_def writePixels_def erase_def fresh_bitmap_def Let_def
      split: option.splits)

lemma backdrop_blank:
  "lastRequiredFrame s = None \<Longrightarrow> DecodeImage_backdrop s r bitmap = bitmap"
  by (simp add: DecodeImage_backdrop_def)

lemma DecodeImage_callback_fst:
  "fst (DecodeImage_callback env s r err cb) =
     s\<lparr>nextFrameIndex := int_rem (nextFrameIndex s + 1) (frameCount s)\<rparr>"
  by (simp add: DecodeImage_callback_def OnGetImageAndInvokeCallback_def Let_def
      split: prod.splits)

lemma DecodeImage_callback_None:
  "DecodeImage_callback env s None err cb =
     (s\<lparr>nextFrameIndex := int_rem (nextFrameIndex s + 1) (frameCount s)\<rparr>,
      InvokeNextFrameCallback_task None 0 err cb)"
  by (simp add: DecodeImage_callback_def OnGetImageAndInvokeCallback_def)

section \<open>Lemmas: tasks and runs\<close>

text \<open>
  The three ways an IO task can go; from here on the defining equations of
  \<open>run_io_task\<close> are no longer unfolded by themselves.
\<close>

lemma run_io_task_request_dead:
  "use_count sys = 0 \<Longrightarrow>
   run_io_task env (GetNextFrame_task cb) sys =
     sys\<lparr>ui_task_runner := ui_task_runner sys @ [Clear_task cb]\<rparr>"
  by simp

lemma run_io_task_request_live:
  "use_count sys \<noteq> 0 \<Longrightarrow>
   run_io_task env (GetNextFrame_task cb) sys =
     sys\<lparr>shared_state := fst (DecodeImage env (shared_state sys)),
         use_count := use_count sys + 1,
         io_task_runner := io_task_runner sys @
           [DecodeImage_callback_task (fst (snd (DecodeImage env (shared_state sys))))
              (snd (snd (DecodeImage env (shared_state sys)))) cb],
         decode_log := decode_log sys @
           [(nextFrameIndex (shared_state sys),
             fst (snd (DecodeImage env (shared_state sys))) \<noteq> None)]\<rparr>"
  by (simp split: prod.splits)

lemma run_io_task_callback:
  "run_io_task env (DecodeImage_callback_task r err cb) sys =
     sys\<lparr>shared_state :=
           (shared_state sys)\<lparr>nextFrameIndex :=
              int_rem (nextFrameIndex (shared_state sys) + 1) (frameCount (shared_state sys))\<rparr>,
         use_count := use_count sys - 1,
         ui_task_runner := ui_task_runner sys @
           [snd (DecodeImage_callback env (shared_state sys) r err cb)]\<rparr>"
proof (cases "DecodeImage_callback env (shared_state sys) r err cb")
  case (Pair s' task)
  with DecodeImage_callback_fst [of env "shared_state sys" r err cb]
  show ?thesis by simp
qed

declare run_io_task.simps [simp del]

lemma run_events_invariant:
  assumes "P sys" and "\<And>e sys. P sys \<Longrightarrow> P (run_event e sys)"
  shows "P (run_events es sys)"
  using assms(1) by (induction es arbitrary: sys) (auto intro: assms(2))

lemma run_events_append: "run_events (es @ es') sys = run_events es' (run_events es sys)"
  by (induction es arbitrary: sys) auto

section \<open>Lemmas: what every run preserves\<close>

lemma run_io_task_static:
  "static_fields (shared_state (run_io_task env task sys)) = static_fields (shared_state sys)"
proof (cases task)
  case (GetNextFrame_task cb)
  then show ?thesis
    by (cases "use_count sys = 0")
       (simp_all add: run_io_task_request_dead run_io_task_request_live
          static_fields_def DecodeImage_static)
next
  case (DecodeImage_callback_task r err cb)
  then show ?thesis
    by (simp add: run_io_task_callback static_fields_def)
qed

lemma run_event_static:
  "static_fields (shared_state (run_event e sys)) = static_fields (shared_state sys)"
proof (cases e)
  case (Call_getNextFrame h)
  then show ?thesis by (simp add: getNextFrame_def)
next
  case Destroy_codec
  then show ?thesis by simp
next
  case (Run_io env)
  then show ?thesis
    using run_io_task_static by (simp split: list.splits)
next
  case (Run_ui d)
  then show ?thesis by (simp split: list.splits)
qed

lemma run_events_static:
  "static_fields (shared_state (run_events es sys)) = static_fields (shared_state sys)"
  by (induction es arbitrary: sys) (simp_all add: run_event_static)

lemma reachable_static:
  assumes "sys = run_events es (MultiFrameCodec_init g impeller)"
  shows "generator (shared_state sys) = g"
    and "frameCount (shared_state sys) = GetFrameCount g"
    and "repetitionCount (shared_state sys) =
           (if GetPlayCount g = kInfinitePlayCount g then - 1 else GetPlayCount g - 1)"
    and "is_impeller_enabled (shared_state sys) = impeller"
  using run_events_static [of es "MultiFrameCodec_init g impeller"] assms
  by (simp_all add: static_fields_def MultiFrameCodec_init_def State_init_def)

lemma retained_info_ok_run_io_task:
  assumes "retained_info_ok (shared_state sys)"
  shows "retained_info_ok (shared_state (run_io_task env task sys))"
proof (cases task)
  case (GetNextFrame_task cb)
  with assms show ?thesis
    by (cases "use_count sys = 0")
       (simp_all add: run_io_task_request_dead run_io_task_request_live
          retained_info_ok_DecodeImage)
next
  case (DecodeImage_callback_task r err cb)
  have "DecodeImage_info
          ((shared_state sys)\<lparr>nextFrameIndex :=
             int_rem (nextFrameIndex (shared_state sys) + 1) (frameCount (shared_state sys))\<rparr>)
        = DecodeImage_info (shared_state sys)"
    by (rule DecodeImage_info_generator) simp
  with assms DecodeImage_callback_task show ?thesis
    by (simp add: run_io_task_callback retained_info_ok_def split: option.splits)
qed

lemma retained_info_ok_run_event:
  assumes "retained_info_ok (shared_state sys)"
  shows "retained_info_ok (shared_state (run_event e sys))"
proof (cases e)
  case (Call_getNextFrame h)
  with assms show ?thesis by (simp add: getNextFrame_def)
next
  case Destroy_codec
  with assms show ?thesis by simp
next
  case (Run_io env)
  with assms show ?thesis
    by (simp add: retained_info_ok_run_io_task split: list.splits)
next
  case (Run_ui d)
  with assms show ?thesis by (simp split: list.splits)
qed

lemma retained_info_ok_reachable:
  "retained_info_ok (shared_state (run_events es (MultiFrameCodec_init g impeller)))"
proof (rule run_events_invariant [where P = "\<lambda>sys. retained_info_ok (shared_state sys)"])
  show "retained_info_ok (shared_state (MultiFrameCodec_init g impeller))"
    by (simp add: retained_info_ok_def MultiFrameCodec_init_def State_init_simps)
qed (rule retained_info_ok_run_event)

lemma nextFrameIndex_in_range_run_event:
  assumes "0 < sint (frameCount (shared_state sys))"
    and "unat (nextFrameIndex (shared_state sys)) < unat (frameCount (shared_state sys))"
  shows "unat (nextFrameIndex (shared_state (run_event e sys))) <
           unat (frameCount (shared_state sys))"
proof (cases e)
  case (Call_getNextFrame h)
  from assms(1) have "frameCount (shared_state sys) \<noteq> 0" by auto
  with Call_getNextFrame assms show ?thesis by (simp add: getNextFrame_def)
next
  case Destroy_codec
  with assms show ?thesis by simp
next
  case (Run_ui d)
  with assms show ?thesis by (simp split: list.splits)
next
  case (Run_io env)
  show ?thesis
  proof (cases "io_task_runner sys")
    case Nil
    with Run_io assms show ?thesis by simp
  next
    case (Cons task rest)
    show ?thesis
    proof (cases task)
      case (GetNextFrame_task cb)
      with Run_io Cons assms show ?thesis
        by (cases "use_count sys = 0")
           (simp_all add: run_io_task_request_dead run_io_task_request_live DecodeImage_static)
    next
      case (DecodeImage_callback_task r err cb)
      with Run_io Cons int_rem_step(2) [OF assms] show ?thesis
        by (simp add: run_io_task_callback)
    qed
  qed
qed

lemma nextFrameIndex_in_range:
  assumes "0 < sint (GetFrameCount g)"
  shows "unat (nextFrameIndex (shared_state (run_events es (MultiFrameCodec_init g impeller)))) <
           unat (GetFrameCount g)"
proof -
  let ?P = "\<lambda>sys. static_fields (shared_state sys) =
                    static_fields (shared_state (MultiFrameCodec_init g impeller)) \<and>
                  unat (nextFrameIndex (shared_state sys)) < unat (GetFrameCount g)"
  have "?P (run_events es (MultiFrameCodec_init g impeller))"
  proof (rule run_events_invariant [where P = ?P])
    show "?P (MultiFrameCodec_init g impeller)"
      using sint_pos_unat(3) [OF assms]
      by (simp add: MultiFrameCodec_init_def State_init_simps)
  next
    fix e and sys :: System
    assume P: "?P sys"
    then have fc: "frameCount (shared_state sys) = GetFrameCount g"
      by (simp add: static_fields_def MultiFrameCodec_init_def State_init_simps)
    with P assms nextFrameIndex_in_range_run_event [of sys e]
    show "?P (run_event e sys)"
      by (simp add: run_event_static)
  qed
  then show ?thesis by simp
qed

lemma use_count_run_event:
  assumes "use_count sys = owners sys"
  shows "use_count (run_event e sys) = owners (run_event e sys)"
proof (cases e)
  case (Call_getNextFrame h)
  with assms show ?thesis by (simp add: getNextFrame_def owners_def)
next
  case Destroy_codec
  with assms show ?thesis by (simp add: owners_def)
next
  case (Run_ui d)
  with assms show ?thesis by (simp add: owners_def split: list.splits)
next
  case (Run_io env)
  show ?thesis
  proof (cases "io_task_runner sys")
    case Nil
    with Run_io assms show ?thesis by simp
  next
    case (Cons task rest)
    show ?thesis
    proof (cases task)
      case (GetNextFrame_task cb)
      with Run_io Cons assms show ?thesis
        by (cases "use_count sys = 0")
           (simp_all add: run_io_task_request_dead run_io_task_request_live owners_def)
    next
      case (DecodeImage_callback_task r err cb)
      with Run_io Cons assms show ?thesis
        by (simp add: run_io_task_callback owners_def)
    qed
  qed
qed

lemma use_count_reachable:
  "use_count (run_events es (MultiFrameCodec_init g impeller)) =
     owners (run_events es (MultiFrameCodec_init g impeller))"
proof (rule run_events_invariant [where P = "\<lambda>sys. use_count sys = owners sys"])
  show "use_count (MultiFrameCodec_init g impeller) = owners (MultiFrameCodec_init g impeller)"
    by (simp add: owners_def MultiFrameCodec_init_def)
qed (rule use_count_run_event)

lemma run_ui_task_no_frames:
  "no_frames_task task \<Longrightarrow> list_all no_frames_effect (run_ui_task d task)"
  by (cases task) (simp_all add: InvokeNextFrameCallback_def)

lemma no_frames_inv_run_event:
  assumes "frameCount s0 = 0" and "no_frames_inv s0 sys"
  shows "no_frames_inv s0 (run_event e sys)"
proof (cases e)
  case (Call_getNextFrame h)
  with assms show ?thesis by (simp add: getNextFrame_def no_frames_inv_def)
next
  case Destroy_codec
  with assms show ?thesis by (simp add: no_frames_inv_def)
next
  case (Run_io env)
  with assms show ?thesis by (simp add: no_frames_inv_def)
next
  case (Run_ui d)
  with assms show ?thesis
    by (auto simp: no_frames_inv_def run_ui_task_no_frames split: list.splits)
qed

lemma no_frames_inv_reachable:
  assumes "GetFrameCount g = 0"
  shows "no_frames_inv (State_init g impeller) (run_events es (MultiFrameCodec_init g impeller))"
proof (rule run_events_invariant [where P = "no_frames_inv (State_init g impeller)"])
  show "no_frames_inv (State_init g impeller) (MultiFrameCodec_init g impeller)"
    by (simp add: no_frames_inv_def MultiFrameCodec_init_def)
next
  fix e and sys :: System
  assume "no_frames_inv (State_init g impeller) sys"
  with assms show "no_frames_inv (State_init g impeller) (run_event e sys)"
    by (intro no_frames_inv_run_event) (simp_all add: State_init_simps)
qed

lemma retained_inv_same:
  assumes "generator (shared_state sys') = generator (shared_state sys)"
    and "lastRequiredFrame (shared_state sys') = lastRequiredFrame (shared_state sys)"
    and "restoreBGColorRect (shared_state sys') = restoreBGColorRect (shared_state sys)"
    and "decode_log sys' = decode_log sys"
  shows "retained_inv g sys' = retained_inv g sys"
  using assms
  by (simp add: retained_inv_def keep_decoded_def restore_background_decoded_last_def
      decoded_frames_def)

lemma retained_inv_decode:
  assumes "retained_inv g sys" and "use_count sys \<noteq> 0"
  shows "retained_inv g (run_io_task env (GetNextFrame_task cb) sys)"
proof (cases env "shared_state sys" rule: DecodeImage_cases)
  case (failed err)
  have "retained_inv g (run_io_task env (GetNextFrame_task cb) sys) = retained_inv g sys"
    using assms(2) failed
    by (simp add: run_io_task_request_live retained_inv_def keep_decoded_def
        restore_background_decoded_last_def decoded_frames_def)
  with assms(1) show ?thesis by simp
next
  case (decoded bitmap)
  let ?i = "nextFrameIndex (shared_state sys)"
  let ?sys' = "run_io_task env (GetNextFrame_task cb) sys"
  have g: "generator (shared_state sys) = g"
    using assms(1) by (simp add: retained_inv_def)
  have d: "decoded_frames ?sys' = decoded_frames sys @ [?i]"
    using assms(2) decoded by (simp add: run_io_task_request_live decoded_frames_def)
  have s: "shared_state ?sys' =
             DecodeImage_retain (GetFrameInfo g ?i) bitmap (shared_state sys)"
    using assms(2) decoded g by (simp add: run_io_task_request_live)
  have "generator (shared_state ?sys') = g"
    unfolding s using g by (simp add: retain_static)
  moreover have "keep_decoded g ?sys' \<longrightarrow> lastRequiredFrame (shared_state ?sys') \<noteq> None"
    unfolding s keep_decoded_def d using assms(1)
    by (auto simp: lastRequiredFrame_retain retained_inv_def keep_decoded_def)
  moreover have "(restoreBGColorRect (shared_state ?sys') \<noteq> None) =
                   restore_background_decoded_last g ?sys'"
    unfolding s restore_background_decoded_last_def d
    by (simp add: restoreBGColorRect_retain)
  ultimately show ?thesis by (simp add: retained_inv_def)
qed

lemma retained_inv_run_event:
  assumes "retained_inv g sys"
  shows "retained_inv g (run_event e sys)"
proof (cases e)
  case (Call_getNextFrame h)
  have "retained_inv g (run_event e sys) = retained_inv g sys"
    unfolding Call_getNextFrame by (rule retained_inv_same) (simp_all add: getNextFrame_def)
  with assms show ?thesis by simp
next
  case Destroy_codec
  have "retained_inv g (run_event e sys) = retained_inv g sys"
    unfolding Destroy_codec by (rule retained_inv_same) simp_all
  with assms show ?thesis by simp
next
  case (Run_ui d)
  have "retained_inv g (run_event e sys) = retained_inv g sys"
    unfolding Run_ui by (rule retained_inv_same) (simp_all split: list.splits)
  with assms show ?thesis by simp
next
  case (Run_io env)
  show ?thesis
  proof (cases "io_task_runner sys")
    case Nil
    with Run_io assms show ?thesis by simp
  next
    case (Cons task rest)
    let ?sys = "sys\<lparr>io_task_runner := rest\<rparr>"
    have "retained_inv g ?sys = retained_inv g sys"
      by (rule retained_inv_same) simp_all
    with assms have inv: "retained_inv g ?sys" by simp
    show ?thesis
    proof (cases task)
      case (GetNextFrame_task cb)
      show ?thesis
      proof (cases "use_count sys = 0")
        case True
        have "retained_inv g (run_io_task env (GetNextFrame_task cb) ?sys) = retained_inv g ?sys"
          using True by (intro retained_inv_same) (simp_all add: run_io_task_request_dead)
        with Run_io Cons GetNextFrame_task inv show ?thesis by simp
      next
        case False
        then have "use_count ?sys \<noteq> 0" by simp
        from retained_inv_decode [OF inv this] Run_io Cons GetNextFrame_task
        show ?thesis by simp
      qed
    next
      case (DecodeImage_callback_task r err cb)
      have "retained_inv g (run_io_task env (DecodeImage_callback_task r err cb) ?sys) =
              retained_inv g ?sys"
        by (rule retained_inv_same) (simp_all add: run_io_task_callback)
      with Run_io Cons DecodeImage_callback_task inv show ?thesis by simp
    qed
  qed
qed

lemma retained_inv_reachable:
  "retained_inv g (run_events es (MultiFrameCodec_init g impeller))"
proof (rule run_events_invariant [where P = "retained_inv g"])
  show "retained_inv g (MultiFrameCodec_init g impeller)"
    by (simp add: retained_inv_def keep_decoded_def restore_background_decoded_last_def
        decoded_frames_def MultiFrameCodec_init_def State_init_simps)
qed (rule retained_inv_run_event)

section \<open>Lemmas: requests served one at a time\<close>

lemma sequential_request_quiescent:
  assumes "quiescent sys" and "frameCount (shared_state sys) \<noteq> 0" and "Dart_IsClosure h"
  shows "run_events (sequential_request (h, env, env', d)) sys =
     sys\<lparr>shared_state :=
           (fst (DecodeImage env (shared_state sys)))\<lparr>nextFrameIndex :=
              int_rem (nextFrameIndex (shared_state sys) + 1) (frameCount (shared_state sys))\<rparr>,
         decode_log := decode_log sys @
           [(nextFrameIndex (shared_state sys),
             fst (snd (DecodeImage env (shared_state sys))) \<noteq> None)],
         dart_log := dart_log sys @
           run_ui_task d
             (snd (DecodeImage_callback env' (fst (DecodeImage env (shared_state sys)))
                (fst (snd (DecodeImage env (shared_state sys))))
                (snd (snd (DecodeImage env (shared_state sys)))) h))\<rparr>"
  using assms
  by (cases sys)
     (simp add: quiescent_def getNextFrame_def run_io_task_request_live run_io_task_callback
        DecodeImage_static)

lemma sequential_run_Nil: "sequential_run g impeller [] = MultiFrameCodec_init g impeller"
  by (simp add: sequential_run_def)

lemma sequential_run_snoc:
  "sequential_run g impeller (reqs @ [r]) =
     run_events (sequential_request r) (sequential_run g impeller reqs)"
  by (simp add: sequential_run_def run_events_append)

lemma sequential_run_static:
  "generator (shared_state (sequential_run g impeller reqs)) = g"
  "frameCount (shared_state (sequential_run g impeller reqs)) = GetFrameCount g"
  unfolding sequential_run_def by (rule reachable_static [OF refl])+

lemma sequential_run_visits:
  assumes "0 < sint (GetFrameCount g)" and "\<forall>r\<in>set reqs. Dart_IsClosure (fst r)"
  shows "quiescent (sequential_run g impeller reqs) \<and>
         nextFrameIndex (shared_state (sequential_run g impeller reqs)) =
           of_nat (length reqs mod unat (GetFrameCount g)) \<and>
         map fst (decode_log (sequential_run g impeller reqs)) =
           map (\<lambda>k. of_nat (k mod unat (GetFrameCount g))) [0..<length reqs]"
  using assms(2)
proof (induction reqs rule: rev_induct)
  case Nil
  show ?case
    by (simp add: sequential_run_Nil quiescent_def MultiFrameCodec_init_def State_init_simps)
next
  case (snoc r reqs)
  obtain h env env' d where r: "r = (h, env, env', d)" by (cases r)
  let ?sys = "sequential_run g impeller reqs"
  note fc = sint_pos_unat [OF assms(1)]
  from snoc have IH: "quiescent ?sys"
    "nextFrameIndex (shared_state ?sys) = of_nat (length reqs mod unat (GetFrameCount g))"
    "map fst (decode_log ?sys) =
       map (\<lambda>k. of_nat (k mod unat (GetFrameCount g))) [0..<length reqs]"
    by simp_all
  have h: "Dart_IsClosure h" using snoc.prems r by simp
  have nz: "frameCount (shared_state ?sys) \<noteq> 0"
    using assms(1) by (auto simp: sequential_run_static)
  have step: "sequential_run g impeller (reqs @ [r]) =
     ?sys\<lparr>shared_state :=
           (fst (DecodeImage env (shared_state ?sys)))\<lparr>nextFrameIndex :=
              int_rem (nextFrameIndex (shared_state ?sys) + 1) (frameCount (shared_state ?sys))\<rparr>,
         decode_log := decode_log ?sys @
           [(nextFrameIndex (shared_state ?sys),
             fst (snd (DecodeImage env (shared_state ?sys))) \<noteq> None)],
         dart_log := dart_log ?sys @
           run_ui_task d
             (snd (DecodeImage_callback env' (fst (DecodeImage env (shared_state ?sys)))
                (fst (snd (DecodeImage env (shared_state ?sys))))
                (snd (snd (DecodeImage env (shared_state ?sys)))) h))\<rparr>"
    unfolding sequential_run_snoc r by (rule sequential_request_quiescent [OF IH(1) nz h])
  have m: "length reqs mod unat (GetFrameCount g) < unat (GetFrameCount g)"
    using fc(3) by simp
  have idx: "int_rem (nextFrameIndex (shared_state ?sys) + 1) (frameCount (shared_state ?sys)) =
               of_nat (Suc (length reqs) mod unat (GetFrameCount g))"
    unfolding IH(2) sequential_run_static
    using int_rem_Suc [OF assms(1) m] by (simp add: mod_Suc_eq)
  show ?case
    unfolding step using IH idx by (simp add: quiescent_def)
qed

lemma shared_state_sequential_run_snoc:
  assumes "0 < sint (GetFrameCount g)" and "\<forall>r\<in>set reqs. Dart_IsClosure (fst r)"
    and "Dart_IsClosure h"
  shows "shared_state (sequential_run g impeller (reqs @ [(h, env, env', d)])) =
           serve env (shared_state (sequential_run g impeller reqs))"
proof -
  let ?sys = "sequential_run g impeller reqs"
  have q: "quiescent ?sys"
    using sequential_run_visits [OF assms(1,2)] by simp
  have nz: "frameCount (shared_state ?sys) \<noteq> 0"
    using assms(1) by (auto simp: sequential_run_static)
  show ?thesis
    unfolding sequential_run_snoc sequential_request_quiescent [OF q nz assms(3)]
    by (simp add: serve_def)
qed

section \<open>Lemmas: the example inputs\<close>

lemma example_env_simps:
  "memory_available example_env"
  "GetPixels example_env info pixels i required =
     Some (\<lambda>x y. if x = y then i + 1 else pixels x y)"
  "computeMinByteSize example_env info = info_width info * info_height info * 4"
  by (simp_all add: example_env_def)

lemma DecodeImage_example_env:
  "DecodeImage example_env s =
     (let frameInfo = GetFrameInfo (generator s) (nextFrameIndex s);
          backdrop = DecodeImage_backdrop s (DecodeImage_requiredFrameIndex frameInfo)
                       (fresh_bitmap s);
          bitmap = backdrop\<lparr>bm_pixels :=
                      (\<lambda>x y. if x = y then nextFrameIndex s + 1 else bm_pixels backdrop x y)\<rparr>
      in (DecodeImage_retain frameInfo bitmap s, Some bitmap, []))"
  by (simp add: DecodeImage_with_memory example_env_simps Let_def)

lemma decode_log_sequential_run_snoc:
  assumes "0 < sint (GetFrameCount g)" and "\<forall>r\<in>set reqs. Dart_IsClosure (fst r)"
    and "Dart_IsClosure h"
  shows "decode_log (sequential_run g impeller (reqs @ [(h, env, env', d)])) =
           decode_log (sequential_run g impeller reqs) @
             [(nextFrameIndex (shared_state (sequential_run g impeller reqs)),
               fst (snd (DecodeImage env (shared_state (sequential_run g impeller reqs)))) \<noteq>
                 None)]"
proof -
  let ?sys = "sequential_run g impeller reqs"
  have q: "quiescent ?sys"
    using sequential_run_visits [OF assms(1,2)] by simp
  have nz: "frameCount (shared_state ?sys) \<noteq> 0"
    using assms(1) by (auto simp: sequential_run_static)
  show ?thesis
    unfolding sequential_run_snoc sequential_request_quiescent [OF q nz assms(3)]
    by simp
qed

lemma serve_example_env:
  "serve example_env s =
     (let frameInfo = GetFrameInfo (generator s) (nextFrameIndex s);
          backdrop = DecodeImage_backdrop s (DecodeImage_requiredFrameIndex frameInfo)
                       (fresh_bitmap s);
          bitmap = backdrop\<lparr>bm_pixels :=
                      (\<lambda>x y. if x = y then nextFrameIndex s + 1 else bm_pixels backdrop x y)\<rparr>
      in (DecodeImage_retain frameInfo bitmap s)\<lparr>nextFrameIndex :=
            int_rem (nextFrameIndex s + 1) (frameCount s)\<rparr>)"
  by (simp add: serve_def DecodeImage_example_env Let_def)

lemma example_frame_simps:
  "required_frame (example_frame r d) = r"
  "duration (example_frame r d) = 100"
  "disposal_method (example_frame r d) = d"
  "disposal_rect (example_frame r d) = example_rect"
  by (simp_all add: example_frame_def)

lemma example_animation_simps:
  "GetFrameCount example_animation = 3"
  "GetPlayCount example_animation = 3"
  "kInfinitePlayCount example_animation = - 1"
  "GetInfo example_animation = example_info"
  "GetFrameInfo example_animation 0 = example_frame None kKeep"
  "GetFrameInfo example_animation 1 = example_frame (Some 0) kRestoreBGColor"
  "GetFrameInfo example_animation 2 = example_frame (Some 1) kRestorePrevious"
  by (simp_all add: example_animation_def example_generator_def)

lemma restore_previous_first_simps:
  "GetFrameCount restore_previous_first = 1"
  "GetInfo restore_previous_first = example_info"
  "GetFrameInfo restore_previous_first 0 = example_frame None kRestorePrevious"
  by (simp_all add: restore_previous_first_def example_generator_def)

lemma restore_background_first_simps:
  "GetFrameCount restore_background_first = 1"
  "GetInfo restore_background_first = example_info"
  "GetFrameInfo restore_background_first 0 = example_frame None kRestoreBGColor"
  by (simp_all add: restore_background_first_def example_generator_def)

lemma example_state_after_one:
  defines "s1 \<equiv> serve example_env (State_init example_animation False)"
  shows "generator s1 = example_animation"
    and "frameCount s1 = 3"
    and "nextFrameIndex s1 = 1"
    and "restoreBGColorRect s1 = None"
    and "\<exists>b. lastRequiredFrame s1 = Some b \<and> bm_info b = example_info \<and>
             bm_pixels b = (\<lambda>x y. if x = y then 1 else 0)"
  unfolding s1_def
  by (simp_all add: serve_example_env Let_def State_init_simps example_animation_simps
      example_frame_simps int_rem_examples retain_static lastRequiredFrame_retain
      restoreBGColorRect_retain fresh_bitmap_def DecodeImage_backdrop_def
      DecodeImage_requiredFrameIndex_def DecodeImage_info_def makeColorType_def
      example_info_def fun_eq_iff)

lemma example_state_after_two:
  defines "s2 \<equiv> serve example_env (serve example_env (State_init example_animation False))"
  shows "generator s2 = example_animation"
    and "nextFrameIndex s2 = 2"
    and "restoreBGColorRect s2 = Some example_rect"
    and "\<exists>b. lastRequiredFrame s2 = Some b \<and> bm_info b = example_info \<and>
             bm_pixels b = (\<lambda>x y. if x = y then 2 else 0)"
proof -
  let ?s1 = "serve example_env (State_init example_animation False)"
  note one = example_state_after_one
  from one(5) obtain b where b: "lastRequiredFrame ?s1 = Some b" "bm_info b = example_info"
    "bm_pixels b = (\<lambda>x y. if x = y then 1 else 0)" by blast
  show "generator s2 = example_animation"
    unfolding s2_def by (simp add: serve_example_env [of ?s1] Let_def retain_static one)
  show "nextFrameIndex s2 = 2"
    unfolding s2_def by (simp add: serve_example_env [of ?s1] Let_def one int_rem_examples)
  show "restoreBGColorRect s2 = Some example_rect"
    unfolding s2_def
    by (simp add: serve_example_env [of ?s1] Let_def one restoreBGColorRect_retain
        example_animation_simps example_frame_simps)
  show "\<exists>b. lastRequiredFrame s2 = Some b \<and> bm_info b = example_info \<and>
             bm_pixels b = (\<lambda>x y. if x = y then 2 else 0)"
    unfolding s2_def
    by (simp add: serve_example_env [of ?s1] Let_def one b lastRequiredFrame_retain
        example_animation_simps example_frame_simps bm_info_backdrop fresh_bitmap_def
        DecodeImage_info_def makeColorType_def example_info_def
        DecodeImage_backdrop_def DecodeImage_requiredFrameIndex_def kNoFrame_def
        writePixels_def in_bounds_def fun_eq_iff)
qed

lemma shared_state_two_requests:
  "shared_state (run_events (concat (map sequential_request two_requests))
     (MultiFrameCodec_init example_animation False)) =
   serve example_env (serve example_env (State_init example_animation False))"
proof -
  have pos: "0 < sint (GetFrameCount example_animation)"
    by (simp add: example_animation_simps)
  have "shared_state (sequential_run example_animation False
          ([] @ [(Dart_Closure 0, example_env, example_env, True)])) =
        serve example_env (State_init example_animation False)"
    by (subst shared_state_sequential_run_snoc [OF pos])
       (simp_all add: sequential_run_Nil MultiFrameCodec_init_def)
  then have "shared_state (sequential_run example_animation False
          ([(Dart_Closure 0, example_env, example_env, True)] @
           [(Dart_Closure 1, example_env, example_env, True)])) =
        serve example_env (serve example_env (State_init example_animation False))"
    by (subst shared_state_sequential_run_snoc [OF pos]) simp_all
  then show ?thesis
    by (simp add: sequential_run_def two_requests_def)
qed

lemma decode_log_two_requests:
  "decode_log (run_events (concat (map sequential_request two_requests))
     (MultiFrameCodec_init example_animation False)) = [(0, True), (1, True)]"
proof -
  have pos: "0 < sint (GetFrameCount example_animation)"
    by (simp add: example_animation_simps)
  let ?r0 = "(Dart_Closure 0, example_env, example_env, True)"
  let ?r1 = "(Dart_Closure 1, example_env, example_env, True)"
  have ok: "fst (snd (DecodeImage example_env s)) \<noteq> None" for s
    by (simp add: DecodeImage_example_env Let_def)
  have s1: "shared_state (sequential_run example_animation False ([] @ [?r0])) =
              serve example_env (State_init example_animation False)"
    by (subst shared_state_sequential_run_snoc [OF pos])
       (simp_all add: sequential_run_Nil MultiFrameCodec_init_def)
  have l1: "decode_log (sequential_run example_animation False ([] @ [?r0])) = [(0, True)]"
    by (subst decode_log_sequential_run_snoc [OF pos])
       (simp_all add: sequential_run_Nil MultiFrameCodec_init_def State_init_simps ok)
  have "decode_log (sequential_run example_animation False ([?r0] @ [?r1])) =
          [(0, True), (1, True)]"
    using s1 l1
    by (subst decode_log_sequential_run_snoc [OF pos])
       (simp_all add: example_state_after_one ok)
  then show ?thesis
    by (simp add: sequential_run_def two_requests_def)
qed

section \<open>The claims\<close>

text \<open>
  Claim C1. A first frame whose disposal method is RestorePrevious, decoded while no
  frame is retained, is to be retained as if its disposal method were Keep. Evaluated on
  such a frame, \<^verbatim>\<open>DecodeImage\<close> hands a bitmap to its callback and retains nothing:
  the test \<^verbatim>\<open>keep_current_frame || (previous_frame_available && !restore_previous_frame)\<close>
  is false there.
\<close>

theorem restore_previous_first_frame_is_not_retained:
  "fst (snd (DecodeImage example_env (State_init restore_previous_first False))) \<noteq> None \<and>
   lastRequiredFrame (fst (DecodeImage example_env (State_init restore_previous_first False))) =
     None"
  by (simp add: DecodeImage_example_env Let_def lastRequiredFrame_retain State_init_simps
      restore_previous_first_simps example_frame_simps)

text \<open>
  Claim C2. After every successful raw decode, that is whenever \<^verbatim>\<open>DecodeImage\<close> hands
  a bitmap to its callback, the retained frame is overwritten with that bitmap exactly
  when the frame's disposal method is Keep, or a retained frame already exists and the
  disposal method is not RestorePrevious; otherwise it stays what it was. In particular
  RestorePrevious with an existing retained frame leaves the retained frame unchanged.
\<close>

theorem retained_frame_after_decode:
  assumes "DecodeImage env s = (s', Some bitmap, err)"
  shows "lastRequiredFrame s' =
           (if disposal_method (GetFrameInfo (generator s) (nextFrameIndex s)) = kKeep \<or>
               (lastRequiredFrame s \<noteq> None \<and>
                disposal_method (GetFrameInfo (generator s) (nextFrameIndex s)) \<noteq>
                  kRestorePrevious)
            then Some bitmap else lastRequiredFrame s) \<and>
         (disposal_method (GetFrameInfo (generator s) (nextFrameIndex s)) = kRestorePrevious \<longrightarrow>
          lastRequiredFrame s \<noteq> None \<longrightarrow> lastRequiredFrame s' = lastRequiredFrame s)"
  using DecodeImage_Some [OF assms] by (simp add: lastRequiredFrame_retain)

text \<open>
  The theorem at work on frame 2 of the example animation, which restores the previous
  canvas: with frame 0 decoded and retained, frame 2 is decoded, and the retained frame is
  still frame 0.
\<close>

theorem retained_frame_after_decode_witness:
  "fst (snd (DecodeImage example_env
      ((fst (DecodeImage example_env (State_init example_animation False)))
         \<lparr>nextFrameIndex := 2\<rparr>))) \<noteq> None \<and>
   disposal_method (GetFrameInfo example_animation 2) = kRestorePrevious \<and>
   lastRequiredFrame (fst (DecodeImage example_env (State_init example_animation False))) \<noteq> None \<and>
   lastRequiredFrame (fst (DecodeImage example_env
      ((fst (DecodeImage example_env (State_init example_animation False)))
         \<lparr>nextFrameIndex := 2\<rparr>))) =
   lastRequiredFrame (fst (DecodeImage example_env (State_init example_animation False)))"
proof -
  let ?s0 = "State_init example_animation False"
  let ?s1 = "(fst (DecodeImage example_env ?s0))\<lparr>nextFrameIndex := 2\<rparr>"
  obtain s' bitmap where d: "DecodeImage example_env ?s1 = (s', Some bitmap, [])"
    by (simp add: DecodeImage_example_env [of ?s1] Let_def)
  have g: "generator ?s1 = example_animation"
    by (simp add: DecodeImage_static State_init_simps)
  have prev: "lastRequiredFrame (fst (DecodeImage example_env ?s0)) \<noteq> None"
    by (simp add: DecodeImage_example_env [of ?s0] Let_def lastRequiredFrame_retain
        State_init_simps example_animation_simps example_frame_simps)
  from retained_frame_after_decode [OF d] g prev d
  show ?thesis by (simp add: example_animation_simps example_frame_simps)
qed

text \<open>
  Claim C3. In a state the system can reach, take a frame that declares a required frame
  (an index other than the value \<^verbatim>\<open>kNoFrame\<close> that the code tests for) and let the
  allocation succeed. If a frame is retained, the buffer handed to \<^verbatim>\<open>GetPixels\<close> holds,
  at every position of the image, the retained frame's pixel, except that the positions
  inside a pending rectangle are fully transparent: the rectangle is cleared after the copy
  and before the decode. If no frame is retained the buffer is the fresh, blank one. In
  both cases the buffer is what \<^verbatim>\<open>GetPixels\<close> is called with, and when that call
  succeeds \<^verbatim>\<open>DecodeImage\<close> delivers the buffer with the decoded pixels: the missing
  retained frame is no reason to fail.
\<close>

theorem backdrop_for_required_frame:
  assumes "s = shared_state (run_events es (MultiFrameCodec_init g impeller))"
    and "required_frame (GetFrameInfo g (nextFrameIndex s)) = Some r"
    and "r \<noteq> kNoFrame"
    and "memory_available env"
  shows "(\<forall>retained x y.
            lastRequiredFrame s = Some retained \<longrightarrow> in_bounds (DecodeImage_info s) x y \<longrightarrow>
            bm_pixels (DecodeImage_backdrop s r (fresh_bitmap s)) x y =
              (case restoreBGColorRect s of
                 None \<Rightarrow> bm_pixels retained x y
               | Some rect \<Rightarrow>
                   if rect_contains rect x y then SK_ColorTRANSPARENT
                   else bm_pixels retained x y)) \<and>
         (lastRequiredFrame s = None \<longrightarrow>
            DecodeImage_backdrop s r (fresh_bitmap s) = fresh_bitmap s) \<and>
         raw_decode env s =
           GetPixels env (DecodeImage_info s)
             (bm_pixels (DecodeImage_backdrop s r (fresh_bitmap s))) (nextFrameIndex s) r \<and>
         (\<forall>decoded. raw_decode env s = Some decoded \<longrightarrow>
            fst (snd (DecodeImage env s)) =
              Some ((DecodeImage_backdrop s r (fresh_bitmap s))\<lparr>bm_pixels := decoded\<rparr>))"
proof -
  have g: "generator s = g"
    using reachable_static(1) [OF refl, of es g impeller] assms(1) by simp
  have ok: "retained_info_ok s"
    using retained_info_ok_reachable [of es g impeller] assms(1) by simp
  have req: "DecodeImage_requiredFrameIndex (GetFrameInfo (generator s) (nextFrameIndex s)) = r"
    using assms(2) g by (simp add: DecodeImage_requiredFrameIndex_def)
  have 1: "bm_pixels (DecodeImage_backdrop s r (fresh_bitmap s)) x y =
              (case restoreBGColorRect s of
                 None \<Rightarrow> bm_pixels retained x y
               | Some rect \<Rightarrow>
                   if rect_contains rect x y then SK_ColorTRANSPARENT
                   else bm_pixels retained x y)"
    if "lastRequiredFrame s = Some retained" and "in_bounds (DecodeImage_info s) x y"
    for retained x y
    using that ok assms(3) by (intro backdrop_pixels) (simp_all add: retained_info_ok_def)
  have 3: "raw_decode env s =
           GetPixels env (DecodeImage_info s)
             (bm_pixels (DecodeImage_backdrop s r (fresh_bitmap s))) (nextFrameIndex s) r"
    using req by (simp add: raw_decode_def Let_def)
  have 4: "fst (snd (DecodeImage env s)) =
              Some ((DecodeImage_backdrop s r (fresh_bitmap s))\<lparr>bm_pixels := decoded\<rparr>)"
    if "raw_decode env s = Some decoded" for decoded
    using that 3 req assms(4) by (simp add: DecodeImage_with_memory Let_def)
  from 1 3 4 show ?thesis
    by (simp add: backdrop_blank)
qed

text \<open>
  After frames 0 and 1 of the example animation, frame 2 requires frame 1: its buffer is
  frame 1's output with \<open>example_rect\<close>, the left column, cleared.
\<close>

theorem backdrop_for_required_frame_witness:
  "required_frame (GetFrameInfo example_animation (nextFrameIndex (shared_state
     (run_events (concat (map sequential_request two_requests))
        (MultiFrameCodec_init example_animation False))))) = Some 1 \<and>
   (1 :: int32) \<noteq> kNoFrame \<and>
   memory_available example_env \<and>
   lastRequiredFrame (shared_state
     (run_events (concat (map sequential_request two_requests))
        (MultiFrameCodec_init example_animation False))) \<noteq> None \<and>
   restoreBGColorRect (shared_state
     (run_events (concat (map sequential_request two_requests))
        (MultiFrameCodec_init example_animation False))) = Some example_rect \<and>
   bm_pixels (DecodeImage_backdrop (shared_state
       (run_events (concat (map sequential_request two_requests))
          (MultiFrameCodec_init example_animation False))) 1
     (fresh_bitmap (shared_state
       (run_events (concat (map sequential_request two_requests))
          (MultiFrameCodec_init example_animation False))))) 0 0 = SK_ColorTRANSPARENT \<and>
   bm_pixels (DecodeImage_backdrop (shared_state
       (run_events (concat (map sequential_request two_requests))
          (MultiFrameCodec_init example_animation False))) 1
     (fresh_bitmap (shared_state
       (run_events (concat (map sequential_request two_requests))
          (MultiFrameCodec_init example_animation False))))) 1 1 = 2"
proof -
  let ?es = "concat (map sequential_request two_requests)"
  let ?s = "shared_state (run_events ?es (MultiFrameCodec_init example_animation False))"
  note two = example_state_after_two [folded shared_state_two_requests]
  from two(4) obtain b where b: "lastRequiredFrame ?s = Some b" "bm_info b = example_info"
    "bm_pixels b = (\<lambda>x y. if x = y then 2 else 0)" by blast
  have req: "required_frame (GetFrameInfo example_animation (nextFrameIndex ?s)) = Some 1"
    by (simp add: two example_animation_simps example_frame_simps)
  have no: "(1 :: int32) \<noteq> kNoFrame"
    by (simp add: kNoFrame_def)
  have mem: "memory_available example_env"
    by (simp add: example_env_simps)
  have info: "DecodeImage_info ?s = example_info"
    by (simp add: DecodeImage_info_def two example_animation_simps makeColorType_def
        example_info_def)
  have bounds: "in_bounds (DecodeImage_info ?s) 0 0" "in_bounds (DecodeImage_info ?s) 1 1"
    by (simp_all add: info in_bounds_def example_info_def)
  have rect: "rect_contains example_rect 0 0" "\<not> rect_contains example_rect (Suc 0) (Suc 0)"
    by (simp_all add: rect_contains_def example_rect_def)
  from backdrop_for_required_frame [OF refl req no mem]
  have "\<forall>retained x y.
          lastRequiredFrame ?s = Some retained \<longrightarrow> in_bounds (DecodeImage_info ?s) x y \<longrightarrow>
          bm_pixels (DecodeImage_backdrop ?s 1 (fresh_bitmap ?s)) x y =
            (case restoreBGColorRect ?s of
               None \<Rightarrow> bm_pixels retained x y
             | Some rect \<Rightarrow>
                 if rect_contains rect x y then SK_ColorTRANSPARENT
                 else bm_pixels retained x y)"
    by blast
  from this [rule_format, OF b(1) bounds(1)] this [rule_format, OF b(1) bounds(2)]
  have "bm_pixels (DecodeImage_backdrop ?s 1 (fresh_bitmap ?s)) 0 0 = SK_ColorTRANSPARENT"
    and "bm_pixels (DecodeImage_backdrop ?s 1 (fresh_bitmap ?s)) 1 1 = 2"
    by (simp_all add: two(3) rect b(3))
  with req no mem b(1) two(3) show ?thesis by simp
qed

text \<open>
  Claim C4. Let the frame count be positive. Whenever the callback of a decode runs, with
  a bitmap or with an error, and whatever the upload does, \<^verbatim>\<open>nextFrameIndex_\<close> becomes
  \<open>(nextFrameIndex_ + 1) mod frameCount_\<close>. Requests served one after the other from
  the start therefore work on the frames \<open>0, 1, \<dots>, frameCount_ - 1, 0, 1, \<dots>\<close>: after
  \<open>n\<close> requests the index is \<open>n mod frameCount_\<close>, and the \<open>k\<close>-th decode worked
  on frame \<open>k mod frameCount_\<close>.
\<close>

theorem nextFrameIndex_advances_modulo_frameCount:
  assumes "0 < sint (GetFrameCount g)"
  shows "(\<forall>es sk_bitmap_optional decode_error callback rest env.
            io_task_runner (run_events es (MultiFrameCodec_init g impeller)) =
              DecodeImage_callback_task sk_bitmap_optional decode_error callback # rest \<longrightarrow>
            sint (nextFrameIndex (shared_state
                   (run_event (Run_io env) (run_events es (MultiFrameCodec_init g impeller))))) =
              (sint (nextFrameIndex (shared_state
                   (run_events es (MultiFrameCodec_init g impeller)))) + 1)
                mod sint (GetFrameCount g)) \<and>
         (\<forall>reqs. (\<forall>r\<in>set reqs. Dart_IsClosure (fst r)) \<longrightarrow>
            sint (nextFrameIndex (shared_state (sequential_run g impeller reqs))) =
              int (length reqs) mod sint (GetFrameCount g) \<and>
            map (sint \<circ> fst) (decode_log (sequential_run g impeller reqs)) =
              map (\<lambda>k. int k mod sint (GetFrameCount g)) [0..<length reqs])"
proof (intro conjI allI impI)
  fix es sk_bitmap_optional decode_error callback rest env
  let ?sys = "run_events es (MultiFrameCodec_init g impeller)"
  assume q: "io_task_runner ?sys =
               DecodeImage_callback_task sk_bitmap_optional decode_error callback # rest"
  have fc: "frameCount (shared_state ?sys) = GetFrameCount g"
    by (rule reachable_static [OF refl])
  have "unat (nextFrameIndex (shared_state ?sys)) < unat (GetFrameCount g)"
    by (rule nextFrameIndex_in_range [OF assms])
  from int_rem_step(3) [OF assms this] q fc
  show "sint (nextFrameIndex (shared_state (run_event (Run_io env) ?sys))) =
          (sint (nextFrameIndex (shared_state ?sys)) + 1) mod sint (GetFrameCount g)"
    by (simp add: run_io_task_callback)
next
  fix reqs :: "(Dart_Handle \<times> Env \<times> Env \<times> bool) list"
  assume c: "\<forall>r\<in>set reqs. Dart_IsClosure (fst r)"
  note fc = sint_pos_unat [OF assms]
  note v = sequential_run_visits [OF assms c, of impeller]
  have small: "k mod unat (GetFrameCount g) < 2 ^ 31" for k
    using fc(2) fc(3) mod_less_divisor [of "unat (GetFrameCount g)" k] by linarith
  have rd: "sint (of_nat (k mod unat (GetFrameCount g)) :: 32 word) =
              int k mod sint (GetFrameCount g)" for k
    using sint_of_nat_small [OF small [of k]] by (simp only: fc(1) zmod_int)
  show "sint (nextFrameIndex (shared_state (sequential_run g impeller reqs))) =
          int (length reqs) mod sint (GetFrameCount g)"
    using v rd by simp
  have "map (sint \<circ> fst) (decode_log (sequential_run g impeller reqs)) =
          map sint (map fst (decode_log (sequential_run g impeller reqs)))"
    by simp
  also have "\<dots> = map (\<lambda>k. int k mod sint (GetFrameCount g)) [0..<length reqs]"
    using v rd by (simp add: comp_def)
  finally show "map (sint \<circ> fst) (decode_log (sequential_run g impeller reqs)) =
          map (\<lambda>k. int k mod sint (GetFrameCount g)) [0..<length reqs]" .
qed

text \<open>
  Four requests on the three frames of the example animation, the second and the third
  failing in \<^verbatim>\<open>GetPixels\<close> and in the allocation.
\<close>

theorem nextFrameIndex_advances_witness:
  "0 < sint (GetFrameCount example_animation) \<and>
   sint (nextFrameIndex (shared_state (sequential_run example_animation False
      [(Dart_Closure 0, example_env, example_env, True),
       (Dart_Closure 1, example_env_no_pixels, example_env, True),
       (Dart_Closure 2, example_env_no_memory, example_env, True),
       (Dart_Closure 3, example_env, example_env, True)]))) = 1 \<and>
   map (sint \<circ> fst) (decode_log (sequential_run example_animation False
      [(Dart_Closure 0, example_env, example_env, True),
       (Dart_Closure 1, example_env_no_pixels, example_env, True),
       (Dart_Closure 2, example_env_no_memory, example_env, True),
       (Dart_Closure 3, example_env, example_env, True)])) = [0, 1, 2, 0]"
proof -
  have pos: "0 < sint (GetFrameCount example_animation)"
    by (simp add: example_animation_simps)
  let ?reqs = "[(Dart_Closure 0, example_env, example_env, True),
       (Dart_Closure 1, example_env_no_pixels, example_env, True),
       (Dart_Closure 2, example_env_no_memory, example_env, True),
       (Dart_Closure 3, example_env, example_env, True)]"
  have c: "\<forall>r\<in>set ?reqs. Dart_IsClosure (fst r)" by simp
  from nextFrameIndex_advances_modulo_frameCount [OF pos, of False] c pos
  have "sint (nextFrameIndex (shared_state (sequential_run example_animation False ?reqs))) =
          int (length ?reqs) mod sint (GetFrameCount example_animation) \<and>
        map (sint \<circ> fst) (decode_log (sequential_run example_animation False ?reqs)) =
          map (\<lambda>k. int k mod sint (GetFrameCount example_animation)) [0..<length ?reqs]"
    by blast
  with pos show ?thesis
    by (simp add: example_animation_simps)
qed

text \<open>
  Claim C5 says that, in every state reached by frame requests, a pending rectangle
  implies a retained frame. One request on an animation whose only frame asks for the
  background to be restored refutes it: the rectangle is set and nothing is retained.
\<close>

theorem erase_rect_without_retained_frame:
  "restoreBGColorRect (shared_state
     (run_events (sequential_request (Dart_Closure 0, example_env, example_env, True))
        (MultiFrameCodec_init restore_background_first False))) \<noteq> None \<and>
   lastRequiredFrame (shared_state
     (run_events (sequential_request (Dart_Closure 0, example_env, example_env, True))
        (MultiFrameCodec_init restore_background_first False))) = None"
proof -
  let ?init = "MultiFrameCodec_init restore_background_first False"
  have q: "quiescent ?init"
    by (simp add: quiescent_def MultiFrameCodec_init_def)
  have nz: "frameCount (shared_state ?init) \<noteq> 0"
    by (simp add: MultiFrameCodec_init_def State_init_simps restore_background_first_simps)
  have c: "Dart_IsClosure (Dart_Closure 0)" by simp
  show ?thesis
    unfolding sequential_request_quiescent [OF q nz c]
    by (simp add: MultiFrameCodec_init_def DecodeImage_example_env Let_def
        State_init_simps restore_background_first_simps example_frame_simps
        lastRequiredFrame_retain restoreBGColorRect_retain)
qed

text \<open>
  Claim C5, amended. In every state the system can reach, a rectangle is pending exactly
  when the latest successful decode was of a frame whose disposal method is RestoreBGColor,
  whether a frame is retained or not. Once a frame whose disposal method is Keep has been
  decoded successfully a frame is retained, so from then on a pending rectangle implies a
  retained frame. While nothing is retained a pending rectangle has no effect: the buffer
  prepared for the next frame is the fresh one.
\<close>

theorem retained_frame_and_erase_rect:
  assumes "sys = run_events es (MultiFrameCodec_init g impeller)"
  shows "(restoreBGColorRect (shared_state sys) \<noteq> None) =
           restore_background_decoded_last g sys \<and>
         (keep_decoded g sys \<longrightarrow> lastRequiredFrame (shared_state sys) \<noteq> None) \<and>
         (keep_decoded g sys \<longrightarrow> restoreBGColorRect (shared_state sys) \<noteq> None \<longrightarrow>
            lastRequiredFrame (shared_state sys) \<noteq> None) \<and>
         (lastRequiredFrame (shared_state sys) = None \<longrightarrow>
            (\<forall>requiredFrameIndex bitmap.
               DecodeImage_backdrop (shared_state sys) requiredFrameIndex bitmap = bitmap))"
  using retained_inv_reachable [of g es impeller] assms
  by (simp add: retained_inv_def backdrop_blank)

text \<open>
  After frames 0 (Keep) and 1 (RestoreBGColor) of the example animation a Keep frame has
  been decoded, the rectangle is pending and a frame is retained.
\<close>

theorem retained_frame_and_erase_rect_witness:
  "keep_decoded example_animation
     (run_events (concat (map sequential_request two_requests))
        (MultiFrameCodec_init example_animation False)) \<and>
   restoreBGColorRect (shared_state
     (run_events (concat (map sequential_request two_requests))
        (MultiFrameCodec_init example_animation False))) = Some example_rect \<and>
   lastRequiredFrame (shared_state
     (run_events (concat (map sequential_request two_requests))
        (MultiFrameCodec_init example_animation False))) \<noteq> None \<and>
   restore_background_decoded_last example_animation
     (run_events (concat (map sequential_request two_requests))
        (MultiFrameCodec_init example_animation False))"
proof -
  let ?sys = "run_events (concat (map sequential_request two_requests))
        (MultiFrameCodec_init example_animation False)"
  note two = example_state_after_two [folded shared_state_two_requests]
  have k: "keep_decoded example_animation ?sys"
    by (simp add: keep_decoded_def decoded_frames_def decode_log_two_requests
        example_animation_simps example_frame_simps)
  from retained_frame_and_erase_rect
         [OF refl, of "concat (map sequential_request two_requests)" example_animation False]
       k two(3)
  show ?thesis by simp
qed

text \<open>
  Claim C6. Let the allocation of the bitmap or the generator's \<^verbatim>\<open>GetPixels\<close> fail
  for the state the system is in. Then \<^verbatim>\<open>DecodeImage\<close> leaves the state as it was and
  produces no bitmap and an error text that is not empty, and the request is carried
  through by the task runners: the IO task of the request changes nothing of the state and
  queues the callback of the decode with no bitmap and that text; when that callback runs,
  in whatever state the system then is, it posts the delivery of no image, duration 0 and
  the text and touches neither the retained frame nor the rectangle to clear; the UI task
  hands exactly that to the Dart callback. In particular a request served on its own, from
  the call to the delivery, ends with the callback invoked with no image, 0 and the text,
  and with the retained frame and the rectangle as they were before the call.
\<close>

theorem failed_decode_is_reported_and_keeps_state:
  assumes "\<not> memory_available env \<or> raw_decode env (shared_state sys) = None"
  shows "\<exists>err. err \<noteq> [] \<and>
           DecodeImage env (shared_state sys) = (shared_state sys, None, err) \<and>
           (\<forall>callback rest.
              io_task_runner sys = GetNextFrame_task callback # rest \<longrightarrow> use_count sys \<noteq> 0 \<longrightarrow>
              run_event (Run_io env) sys =
                sys\<lparr>io_task_runner := rest @ [DecodeImage_callback_task None err callback],
                    use_count := use_count sys + 1,
                    decode_log := decode_log sys @
                      [(nextFrameIndex (shared_state sys), False)]\<rparr>) \<and>
           (\<forall>callback env' sys' rest'.
              io_task_runner sys' = DecodeImage_callback_task None err callback # rest' \<longrightarrow>
              ui_task_runner (run_event (Run_io env') sys') =
                ui_task_runner sys' @ [InvokeNextFrameCallback_task None 0 err callback] \<and>
              lastRequiredFrame (shared_state (run_event (Run_io env') sys')) =
                lastRequiredFrame (shared_state sys') \<and>
              restoreBGColorRect (shared_state (run_event (Run_io env') sys')) =
                restoreBGColorRect (shared_state sys')) \<and>
           (\<forall>callback sys' rest'.
              ui_task_runner sys' = InvokeNextFrameCallback_task None 0 err callback # rest' \<longrightarrow>
              dart_log (run_event (Run_ui True) sys') =
                dart_log sys' @ [DartInvoke callback None 0 err]) \<and>
           (\<forall>callback_handle env'.
              quiescent sys \<longrightarrow> frameCount (shared_state sys) \<noteq> 0 \<longrightarrow>
              Dart_IsClosure callback_handle \<longrightarrow>
              dart_log (run_events
                  (sequential_request (callback_handle, env, env', True)) sys) =
                dart_log sys @ [DartInvoke callback_handle None 0 err] \<and>
              decode_log (run_events
                  (sequential_request (callback_handle, env, env', True)) sys) =
                decode_log sys @ [(nextFrameIndex (shared_state sys), False)] \<and>
              lastRequiredFrame (shared_state (run_events
                  (sequential_request (callback_handle, env, env', True)) sys)) =
                lastRequiredFrame (shared_state sys) \<and>
              restoreBGColorRect (shared_state (run_events
                  (sequential_request (callback_handle, env, env', True)) sys)) =
                restoreBGColorRect (shared_state sys))"
proof -
  from assms obtain err where err: "err \<noteq> []"
    and d: "DecodeImage env (shared_state sys) = (shared_state sys, None, err)"
    by (rule DecodeImage_failure)
  have 1: "run_event (Run_io env) sys =
             sys\<lparr>io_task_runner := rest @ [DecodeImage_callback_task None err callback],
                 use_count := use_count sys + 1,
                 decode_log := decode_log sys @ [(nextFrameIndex (shared_state sys), False)]\<rparr>"
    if "io_task_runner sys = GetNextFrame_task callback # rest" and "use_count sys \<noteq> 0"
    for callback rest
    using that d by (cases sys) (simp add: run_io_task_request_live)
  have 2: "ui_task_runner (run_event (Run_io env') sys') =
             ui_task_runner sys' @ [InvokeNextFrameCallback_task None 0 err callback] \<and>
           lastRequiredFrame (shared_state (run_event (Run_io env') sys')) =
             lastRequiredFrame (shared_state sys') \<and>
           restoreBGColorRect (shared_state (run_event (Run_io env') sys')) =
             restoreBGColorRect (shared_state sys')"
    if "io_task_runner sys' = DecodeImage_callback_task None err callback # rest'"
    for callback env' and sys' :: System and rest'
    using that by (simp add: run_io_task_callback DecodeImage_callback_None)
  have 3: "dart_log (run_event (Run_ui True) sys') =
             dart_log sys' @ [DartInvoke callback None 0 err]"
    if "ui_task_runner sys' = InvokeNextFrameCallback_task None 0 err callback # rest'"
    for callback and sys' :: System and rest'
    using that by (simp add: InvokeNextFrameCallback_def)
  have 4: "dart_log (run_events (sequential_request (h, env, env', True)) sys) =
             dart_log sys @ [DartInvoke h None 0 err] \<and>
           decode_log (run_events (sequential_request (h, env, env', True)) sys) =
             decode_log sys @ [(nextFrameIndex (shared_state sys), False)] \<and>
           lastRequiredFrame (shared_state
               (run_events (sequential_request (h, env, env', True)) sys)) =
             lastRequiredFrame (shared_state sys) \<and>
           restoreBGColorRect (shared_state
               (run_events (sequential_request (h, env, env', True)) sys)) =
             restoreBGColorRect (shared_state sys)"
    if "quiescent sys" and "frameCount (shared_state sys) \<noteq> 0" and "Dart_IsClosure h"
    for h env'
    unfolding sequential_request_quiescent [OF that]
    by (simp add: d DecodeImage_callback_None InvokeNextFrameCallback_def)
  from err d 1 2 3 4 show ?thesis by blast
qed

text \<open>
  One request on the fresh codec of the example animation, whose generator refuses to
  decode frame 0.
\<close>

theorem failed_decode_witness:
  "raw_decode example_env_no_pixels
     (shared_state (MultiFrameCodec_init example_animation False)) = None \<and>
   quiescent (MultiFrameCodec_init example_animation False) \<and>
   frameCount (shared_state (MultiFrameCodec_init example_animation False)) \<noteq> 0 \<and>
   Dart_IsClosure (Dart_Closure 0) \<and>
   dart_log (run_events
     (sequential_request (Dart_Closure 0, example_env_no_pixels, example_env, True))
     (MultiFrameCodec_init example_animation False)) =
     [DartInvoke (Dart_Closure 0) None 0 ''Could not getPixels for frame 0''] \<and>
   lastRequiredFrame (shared_state (run_events
     (sequential_request (Dart_Closure 0, example_env_no_pixels, example_env, True))
     (MultiFrameCodec_init example_animation False))) = None \<and>
   restoreBGColorRect (shared_state (run_events
     (sequential_request (Dart_Closure 0, example_env_no_pixels, example_env, True))
     (MultiFrameCodec_init example_animation False))) = None"
proof -
  let ?sys = "MultiFrameCodec_init example_animation False"
  have s: "shared_state ?sys = State_init example_animation False"
    by (simp add: MultiFrameCodec_init_def)
  have n: "raw_decode example_env_no_pixels (shared_state ?sys) = None"
    by (simp add: raw_decode_def example_env_no_pixels_def Let_def)
  have m: "memory_available example_env_no_pixels"
    by (simp add: example_env_no_pixels_def example_env_simps)
  have q: "quiescent ?sys"
    by (simp add: quiescent_def MultiFrameCodec_init_def)
  have nz: "frameCount (shared_state ?sys) \<noteq> 0"
    by (simp add: s State_init_simps example_animation_simps)
  have c: "Dart_IsClosure (Dart_Closure 0)" by simp
  have "show_int (sint (nextFrameIndex (State_init example_animation False))) = ''0''"
    by (simp add: State_init_simps show_int_def)
  then have d: "DecodeImage example_env_no_pixels (shared_state ?sys) =
                  (shared_state ?sys, None, ''Could not getPixels for frame 0'')"
    using DecodeImage_raw_decode_None [OF m n] by (simp add: s)
  from failed_decode_is_reported_and_keeps_state
         [of example_env_no_pixels ?sys] n
  obtain err where e: "DecodeImage example_env_no_pixels (shared_state ?sys) =
                         (shared_state ?sys, None, err)"
    and r: "dart_log (run_events
                (sequential_request (Dart_Closure 0, example_env_no_pixels, example_env, True))
                ?sys) = dart_log ?sys @ [DartInvoke (Dart_Closure 0) None 0 err]"
       "lastRequiredFrame (shared_state (run_events
                (sequential_request (Dart_Closure 0, example_env_no_pixels, example_env, True))
                ?sys)) = lastRequiredFrame (shared_state ?sys)"
       "restoreBGColorRect (shared_state (run_events
                (sequential_request (Dart_Closure 0, example_env_no_pixels, example_env, True))
                ?sys)) = restoreBGColorRect (shared_state ?sys)"
    using q nz c by blast
  from e d have "err = ''Could not getPixels for frame 0''" by simp
  with r n q nz c show ?thesis
    by (simp add: MultiFrameCodec_init_def State_init_simps)
qed

text \<open>
  Claim C7. With a frame count of 0, in every state the system can reach, no decode was
  ever attempted, the IO runner has nothing queued, \<^verbatim>\<open>nextFrameIndex_\<close> is still 0,
  and every call of \<^verbatim>\<open>getNextFrame\<close> with a closure returns at once, having posted only
  the delivery of no image, duration 0 and the text \<open>Could not provide any frame.\<close>,
  which is what the callback receives; nothing else ever reaches the Dart side.
\<close>

theorem no_frames_available:
  assumes "GetFrameCount g = 0" and "sys = run_events es (MultiFrameCodec_init g impeller)"
  shows "decode_log sys = [] \<and> io_task_runner sys = [] \<and>
         nextFrameIndex (shared_state sys) = 0 \<and>
         list_all no_frames_effect (dart_log sys) \<and>
         (\<forall>callback_handle. Dart_IsClosure callback_handle \<longrightarrow>
            getNextFrame callback_handle sys =
              (Dart_Null,
               sys\<lparr>ui_task_runner := ui_task_runner sys @
                  [InvokeNextFrameCallback_task None 0 ''Could not provide any frame.''
                     callback_handle]\<rparr>) \<and>
            run_ui_task True
              (InvokeNextFrameCallback_task None 0 ''Could not provide any frame.''
                 callback_handle) =
              [DartInvoke callback_handle None 0 ''Could not provide any frame.''])"
proof -
  from no_frames_inv_reachable [OF assms(1), of impeller es] assms(2)
  have inv: "no_frames_inv (State_init g impeller) sys" by simp
  then have "frameCount (shared_state sys) = 0"
    using assms(1) by (simp add: no_frames_inv_def State_init_simps)
  with inv show ?thesis
    by (simp add: no_frames_inv_def State_init_simps getNextFrame_def
        InvokeNextFrameCallback_def)
qed

text \<open>One request on a generator without frames, run to the end.\<close>

theorem no_frames_available_witness:
  "GetFrameCount no_frames = 0 \<and> Dart_IsClosure (Dart_Closure 0) \<and>
   dart_log (run_events [Call_getNextFrame (Dart_Closure 0), Run_io example_env, Run_ui True]
      (MultiFrameCodec_init no_frames False)) =
     [DartInvoke (Dart_Closure 0) None 0 ''Could not provide any frame.''] \<and>
   decode_log (run_events [Call_getNextFrame (Dart_Closure 0), Run_io example_env, Run_ui True]
      (MultiFrameCodec_init no_frames False)) = [] \<and>
   nextFrameIndex (shared_state
     (run_events [Call_getNextFrame (Dart_Closure 0), Run_io example_env, Run_ui True]
        (MultiFrameCodec_init no_frames False))) = 0"
proof -
  have z: "GetFrameCount no_frames = 0"
    by (simp add: no_frames_def example_generator_def)
  let ?es = "[Call_getNextFrame (Dart_Closure 0), Run_io example_env, Run_ui True]"
  have d: "dart_log (run_events ?es (MultiFrameCodec_init no_frames False)) =
     [DartInvoke (Dart_Closure 0) None 0 ''Could not provide any frame.'']"
    by (simp add: MultiFrameCodec_init_def getNextFrame_def State_init_simps z
        InvokeNextFrameCallback_def)
  from no_frames_available [OF z refl, of ?es False] z d
  show ?thesis by simp
qed

text \<open>
  Claim C8. The repetition count is \<open>-1\<close> when the generator's play count is the
  constant for endless play, and the play count minus one otherwise; the constructor
  computes it, no run of the system changes it, and \<^verbatim>\<open>repetitionCount()\<close> returns it
  in every state the system can reach. The subtraction is the one of the C++ expression,
  on 32-bit integers; read as numbers, the result is the play count minus one for every
  play count from 0 to \<open>2\<^sup>3\<^sup>1 - 1\<close>.
\<close>

theorem repetitionCount_fixed:
  "MultiFrameCodec_repetitionCount (run_events es (MultiFrameCodec_init g impeller)) =
     (if GetPlayCount g = kInfinitePlayCount g then - 1 else GetPlayCount g - 1) \<and>
   (GetPlayCount g = kInfinitePlayCount g \<longrightarrow>
      sint (MultiFrameCodec_repetitionCount (run_events es (MultiFrameCodec_init g impeller))) =
        - 1) \<and>
   (GetPlayCount g \<noteq> kInfinitePlayCount g \<longrightarrow> 0 \<le> sint (GetPlayCount g) \<longrightarrow>
      sint (MultiFrameCodec_repetitionCount (run_events es (MultiFrameCodec_init g impeller))) =
        sint (GetPlayCount g) - 1)"
  using reachable_static(3) [OF refl, of es g impeller]
  by (simp add: MultiFrameCodec_repetitionCount_def sint_minus_one)

text \<open>The example animation is played three times: the repetition count is 2.\<close>

theorem repetitionCount_fixed_witness:
  "GetPlayCount example_animation \<noteq> kInfinitePlayCount example_animation \<and>
   0 \<le> sint (GetPlayCount example_animation) \<and>
   sint (MultiFrameCodec_repetitionCount
     (run_events [Call_getNextFrame (Dart_Closure 0), Run_io example_env, Destroy_codec]
        (MultiFrameCodec_init example_animation False))) = 2"
  using repetitionCount_fixed
    [of "[Call_getNextFrame (Dart_Closure 0), Run_io example_env, Destroy_codec]"
        example_animation False]
  by (simp add: example_animation_simps)

text \<open>
  Claim C9 says that once the codec object has been released, the request that the IO
  runner picks up starts no decode and is answered by clearing its callback. Two requests
  are pending, the first is decoded, the codec object is destroyed, and the IO runner picks
  up the second: the callback of the first decode, still queued, owns the state, the weak
  pointer locks, and a second decode runs; no callback is cleared.
\<close>

theorem released_handle_still_decodes:
  "\<not> codec_alive (run_events
       [Call_getNextFrame (Dart_Closure 0), Call_getNextFrame (Dart_Closure 1),
        Run_io example_env, Destroy_codec]
       (MultiFrameCodec_init example_animation False)) \<and>
   hd (io_task_runner (run_events
       [Call_getNextFrame (Dart_Closure 0), Call_getNextFrame (Dart_Closure 1),
        Run_io example_env, Destroy_codec]
       (MultiFrameCodec_init example_animation False))) = GetNextFrame_task (Dart_Closure 1) \<and>
   length (decode_log (run_events
       [Call_getNextFrame (Dart_Closure 0), Call_getNextFrame (Dart_Closure 1),
        Run_io example_env, Destroy_codec]
       (MultiFrameCodec_init example_animation False))) = 1 \<and>
   length (decode_log (run_events
       [Call_getNextFrame (Dart_Closure 0), Call_getNextFrame (Dart_Closure 1),
        Run_io example_env, Destroy_codec, Run_io example_env]
       (MultiFrameCodec_init example_animation False))) = 2 \<and>
   ui_task_runner (run_events
       [Call_getNextFrame (Dart_Closure 0), Call_getNextFrame (Dart_Closure 1),
        Run_io example_env, Destroy_codec, Run_io example_env]
       (MultiFrameCodec_init example_animation False)) = []"
  by (simp add: MultiFrameCodec_init_def getNextFrame_def State_init_simps
      example_animation_simps run_io_task_request_live)

text \<open>
  Claim C9, amended. In a state the system can reach, let the codec object be released
  and let the request at the head of the IO queue have no callback of an earlier decode
  queued behind it, so that the state has no owner left. Then running the request starts
  no decode and touches neither the state nor the logs: it only posts, once, the task that
  clears the callback, and that task invokes nothing.
\<close>

theorem expired_state_short_circuits:
  assumes "sys = run_events es (MultiFrameCodec_init g impeller)"
    and "\<not> codec_alive sys"
    and "io_task_runner sys = GetNextFrame_task callback # rest"
    and "filter holds_state rest = []"
  shows "run_event (Run_io env) sys =
           sys\<lparr>io_task_runner := rest,
               ui_task_runner := ui_task_runner sys @ [Clear_task callback]\<rparr> \<and>
         run_ui_task dart_state (Clear_task callback) = [Cleared callback]"
proof -
  have "use_count sys = owners sys"
    unfolding assms(1) by (rule use_count_reachable)
  with assms(2-4) have "use_count sys = 0"
    by (simp add: owners_def)
  with assms(3) show ?thesis
    by (simp add: run_io_task_request_dead)
qed

text \<open>A request is pending when the codec object is destroyed.\<close>

theorem expired_state_short_circuits_witness:
  "\<not> codec_alive (run_events [Call_getNextFrame (Dart_Closure 0), Destroy_codec]
       (MultiFrameCodec_init example_animation False)) \<and>
   io_task_runner (run_events [Call_getNextFrame (Dart_Closure 0), Destroy_codec]
       (MultiFrameCodec_init example_animation False)) = [GetNextFrame_task (Dart_Closure 0)] \<and>
   decode_log (run_events [Call_getNextFrame (Dart_Closure 0), Destroy_codec, Run_io example_env]
       (MultiFrameCodec_init example_animation False)) = [] \<and>
   shared_state (run_events [Call_getNextFrame (Dart_Closure 0), Destroy_codec, Run_io example_env]
       (MultiFrameCodec_init example_animation False)) = State_init example_animation False \<and>
   ui_task_runner (run_events [Call_getNextFrame (Dart_Closure 0), Destroy_codec, Run_io example_env]
       (MultiFrameCodec_init example_animation False)) = [Clear_task (Dart_Closure 0)]"
proof -
  let ?es = "[Call_getNextFrame (Dart_Closure 0), Destroy_codec]"
  let ?sys = "run_events ?es (MultiFrameCodec_init example_animation False)"
  have sys: "?sys = (MultiFrameCodec_init example_animation False)
      \<lparr>io_task_runner := [GetNextFrame_task (Dart_Closure 0)],
       codec_alive := False, use_count := 0\<rparr>"
    by (simp add: MultiFrameCodec_init_def getNextFrame_def State_init_simps
        example_animation_simps)
  have 1: "\<not> codec_alive ?sys" and 2: "io_task_runner ?sys = [GetNextFrame_task (Dart_Closure 0)]"
    unfolding sys by simp_all
  have 3: "run_events (?es @ [Run_io example_env]) (MultiFrameCodec_init example_animation False)
             = run_event (Run_io example_env) ?sys"
    unfolding run_events_append by simp
  from expired_state_short_circuits [OF refl 1 2, of example_env True]
  have "run_event (Run_io example_env) ?sys =
          ?sys\<lparr>io_task_runner := [],
               ui_task_runner := ui_task_runner ?sys @ [Clear_task (Dart_Closure 0)]\<rparr>"
    by simp
  with 1 2 3 show ?thesis
    by (simp add: MultiFrameCodec_init_def getNextFrame_def State_init_simps
        example_animation_simps)
qed

text \<open>
  Claim C10. Called with a handle that is not a closure, \<^verbatim>\<open>getNextFrame\<close> returns the
  string \<open>Callback must be a function\<close> and leaves the whole system as it was: no task
  is posted to either runner, so no decode starts, the callback is never invoked and
  \<^verbatim>\<open>nextFrameIndex_\<close> keeps its value.
\<close>

theorem getNextFrame_rejects_non_closure:
  assumes "\<not> Dart_IsClosure callback_handle"
  shows "getNextFrame callback_handle sys = (Dart_String ''Callback must be a function'', sys) \<and>
         run_event (Call_getNextFrame callback_handle) sys = sys"
  using assms by (simp add: getNextFrame_def)

text \<open>A call with an object that is not a function, on a fresh codec.\<close>

theorem getNextFrame_rejects_non_closure_witness:
  "\<not> Dart_IsClosure (Dart_Instance 7) \<and>
   getNextFrame (Dart_Instance 7) (MultiFrameCodec_init example_animation False) =
     (Dart_String ''Callback must be a function'', MultiFrameCodec_init example_animation False) \<and>
   run_event (Call_getNextFrame (Dart_Instance 7)) (MultiFrameCodec_init example_animation False) =
     MultiFrameCodec_init example_animation False"
  using getNextFrame_rejects_non_closure
    [of "Dart_Instance 7" "MultiFrameCodec_init example_animation False"]
  by simp

end
